theory Spec2Isabelle
  imports Complex_Main
begin

section \<open>Python values\<close>

text \<open>
  The middleware and the SDK client exchange JSON documents. A parsed document is a
  \<open>json\<close> value; Python's \<open>None\<close> is \<open>JNull\<close>. A \<open>dict\<close> with string keys is a map:
  equality of Python dictionaries ignores insertion order, and so does equality of maps.
  JSON numbers are the integers (no claim depends on a fractional number).
\<close>

datatype json =
    JNull
  | JBool bool
  | JInt int
  | JStr string
  | JArr "json list"
  | JObj "string \<Rightarrow> json option"

type_synonym dict = "string \<Rightarrow> json option"

text \<open>Python's truth value of an object, as \<open>if x\<close>, \<open>not x\<close> and \<open>x or y\<close> test it.\<close>

fun truthy :: "json \<Rightarrow> bool" where
  "truthy JNull = False"
| "truthy (JBool b) = b"
| "truthy (JInt n) = (n \<noteq> 0)"
| "truthy (JStr s) = (s \<noteq> [])"
| "truthy (JArr xs) = (xs \<noteq> [])"
| "truthy (JObj d) = (d \<noteq> Map.empty)"

definition py_or :: "json \<Rightarrow> json \<Rightarrow> json" where
  "py_or x y = (if truthy x then x else y)"

text \<open>\<open>isinstance(x, dict)\<close>.\<close>

fun is_dict :: "json \<Rightarrow> bool" where
  "is_dict (JObj d) = True"
| "is_dict v = False"

text \<open>\<open>d.get(k)\<close> on a dictionary: the value, or \<open>None\<close>.\<close>

definition dict_get :: "dict \<Rightarrow> string \<Rightarrow> json" where
  "dict_get d k = (case d k of None \<Rightarrow> JNull | Some v \<Rightarrow> v)"

text \<open>An optional string (\<open>Optional[str]\<close>) as a Python value.\<close>

definition opt_str :: "string option \<Rightarrow> json" where
  "opt_str s = (case s of None \<Rightarrow> JNull | Some t \<Rightarrow> JStr t)"

text \<open>
  The exceptions the code raises or lets through. \<open>AportError\<close> is the client's failure
  carrier.
\<close>

text \<open>
  Modelled from the spec: \<open>AportError\<close> (module \<open>errors\<close>, imported by the client and the
  middleware, is not among the source files). The spec calls it the uniform failure
  carrier: status, reasons and an optional decision identifier; the client also passes
  the server timing and the raw response text. Each attribute holds what the constructor
  was given, and an argument left out is \<open>None\<close>. The text of \<open>error.message\<close> is
  computed by the missing class: it is the parameter \<open>aport_message\<close> of the environment.
\<close>

record aport_error =
  err_status :: int
  err_reasons :: json
  err_decision_id :: json
  err_server_timing :: "string option"
  err_raw_response :: "string option"

datatype py_exc =
    AportError aport_error
  | JSONDecodeError
  | UnicodeDecodeError
  | AttributeError
  | TypeError
  | OtherException

text \<open>\<open>x.get(k)\<close> on any value: only a dictionary has the method.\<close>

fun py_get :: "json \<Rightarrow> string \<Rightarrow> py_exc + json" where
  "py_get (JObj d) k = Inr (dict_get d k)"
| "py_get v k = Inl AttributeError"

section \<open>The environment\<close>

text \<open>
  What the code calls and does not define: \<open>json.loads\<close>, the HTTP session, and
  Python's \<open>dict()\<close> on a value that is no dictionary. \<open>json.loads\<close> returns a document
  or raises; on bytes that are not text it raises \<open>UnicodeDecodeError\<close>, which is not a
  \<open>JSONDecodeError\<close>. \<open>dict(x)\<close> builds a dictionary from a sequence of pairs and raises
  on other values: what it makes of a value that is no dictionary is the parameter
  \<open>dict_of_pairs\<close>.
\<close>

datatype loads_result = Parsed json | LoadsRaises py_exc

text \<open>
  The endpoint of a request, with the value formatted into its path:
  \<open>/api/verify/policy/{policy_id}\<close>, \<open>/api/verify/policy/IN_BODY\<close>,
  \<open>/api/passports/{agent_id}/verify_view\<close>, \<open>/jwks.json\<close>. Joining it to the base URL
  is not modelled.
\<close>

datatype endpoint =
    VerifyPolicyPath json
  | VerifyPolicyInBody
  | PassportVerifyView json
  | JwksJson

record http_request =
  rq_method :: string
  rq_endpoint :: endpoint
  rq_headers :: "string \<Rightarrow> string option"
  rq_json :: "json option"

record http_response =
  resp_ok :: bool
  resp_status :: int
  resp_server_timing :: "string option"
  resp_text :: string

text \<open>
  What \<open>session.request\<close> does with a request: it answers, or raises
  \<open>aiohttp.ClientError\<close> (with its text), \<open>asyncio.TimeoutError\<close>, or something else.
\<close>

datatype transport_outcome =
    Responded http_response
  | RaisesClientError string
  | RaisesTimeoutError
  | RaisesOther

record env =
  json_loads :: "string \<Rightarrow> loads_result"
  session_request :: "http_request \<Rightarrow> transport_outcome"
  aport_message :: "aport_error \<Rightarrow> string"
  api_key :: "string option"
  dict_of_pairs :: "json \<Rightarrow> py_exc + (string \<Rightarrow> json option)"

section \<open>The SDK client (client.py, decision\_types.py)\<close>

text \<open>\<open>json.loads(s) if s else {}\<close> inside \<open>try ... except json.JSONDecodeError: {}\<close>.\<close>

definition loads_or_empty :: "env \<Rightarrow> string \<Rightarrow> py_exc + json" where
  "loads_or_empty e s =
     (if s \<noteq> [] then
        (case json_loads e s of
           Parsed j \<Rightarrow> Inr j
         | LoadsRaises JSONDecodeError \<Rightarrow> Inr (JObj Map.empty)
         | LoadsRaises x \<Rightarrow> Inl x)
      else Inr (JObj Map.empty))"

text \<open>\<open>APortClient._get_headers\<close>.\<close>

definition get_headers :: "env \<Rightarrow> string option \<Rightarrow> (string \<Rightarrow> string option)" where
  "get_headers e idempotency_key =
     (let headers = Map.empty;
          headers = (case api_key e of
                       Some k \<Rightarrow> if k \<noteq> [] then headers(''Authorization'' \<mapsto> ''Bearer '' @ k)
                                 else headers
                     | None \<Rightarrow> headers);
          headers = (case idempotency_key of
                       Some k \<Rightarrow> if k \<noteq> [] then headers(''Idempotency-Key'' \<mapsto> k) else headers
                     | None \<Rightarrow> headers)
      in headers)"

text \<open>The reason records the client makes up for a transport failure.\<close>

definition reason :: "string \<Rightarrow> string \<Rightarrow> json" where
  "reason code message = JObj [''code'' \<mapsto> JStr code, ''message'' \<mapsto> JStr message]"

definition network_error :: "string \<Rightarrow> aport_error" where
  "network_error msg =
     \<lparr>err_status = 0, err_reasons = JArr [reason ''NETWORK_ERROR'' msg],
      err_decision_id = JNull, err_server_timing = None, err_raw_response = None\<rparr>"

definition timeout_error :: aport_error where
  "timeout_error =
     \<lparr>err_status = 408, err_reasons = JArr [reason ''TIMEOUT'' ''Request timeout''],
      err_decision_id = JNull, err_server_timing = None, err_raw_response = None\<rparr>"

text \<open>
  \<open>APortClient._make_request\<close>, after the session. The second component is the list of
  requests put on the network.
\<close>

definition response_json :: "env \<Rightarrow> http_response \<Rightarrow> py_exc + json" where
  "response_json e r =
     (case loads_or_empty e (resp_text r) of
        Inl x \<Rightarrow> Inl x
      | Inr json_data \<Rightarrow>
          if \<not> resp_ok r then
            (case py_get json_data ''reasons'' of
               Inl x \<Rightarrow> Inl x
             | Inr reasons \<Rightarrow>
                 (case py_get json_data ''decision_id'' of
                    Inl x \<Rightarrow> Inl x
                  | Inr decision_id \<Rightarrow>
                      Inl (AportError
                        \<lparr>err_status = resp_status r, err_reasons = reasons,
                         err_decision_id = decision_id,
                         err_server_timing = resp_server_timing r,
                         err_raw_response = Some (resp_text r)\<rparr>)))
          else
            (case resp_server_timing r of
               None \<Rightarrow> Inr json_data
             | Some st \<Rightarrow>
                 if st \<noteq> [] then
                   (case json_data of
                      JObj d \<Rightarrow>
                        Inr (JObj (d(''_meta'' \<mapsto> JObj [''serverTiming'' \<mapsto> JStr st])))
                    | _ \<Rightarrow> Inl TypeError)
                 else Inr json_data))"

definition make_request ::
  "env \<Rightarrow> string \<Rightarrow> endpoint \<Rightarrow> json option \<Rightarrow> string option \<Rightarrow> (py_exc + json) \<times> http_request list"
where
  "make_request e method path data idempotency_key =
     (let rq = \<lparr>rq_method = method, rq_endpoint = path,
                 rq_headers = get_headers e idempotency_key, rq_json = data\<rparr>
      in (case session_request e rq of
            Responded r \<Rightarrow> response_json e r
          | RaisesClientError msg \<Rightarrow> Inl (AportError (network_error msg))
          | RaisesTimeoutError \<Rightarrow> Inl (AportError timeout_error)
          | RaisesOther \<Rightarrow> Inl OtherException,
          [rq]))"

text \<open>\<open>APortClient._build_policy_request_body\<close>; \<open>dict(context or {})\<close> copies the context.\<close>

definition build_policy_request_body ::
  "json \<Rightarrow> json \<Rightarrow> string option \<Rightarrow> dict option \<Rightarrow> json \<Rightarrow> json \<Rightarrow> dict"
where
  "build_policy_request_body agent_id policy_id idempotency_key context passport policy =
     (let ctx = (case context of None \<Rightarrow> Map.empty | Some c \<Rightarrow> c);
          ctx = (if agent_id \<noteq> JNull then ctx(''agent_id'' \<mapsto> agent_id) else ctx);
          ctx = (if policy_id \<noteq> JNull then ctx(''policy_id'' \<mapsto> policy_id) else ctx);
          ctx = (case idempotency_key of
                   Some k \<Rightarrow> ctx(''idempotency_key'' \<mapsto> JStr k)
                 | None \<Rightarrow> ctx);
          body = [''context'' \<mapsto> JObj ctx];
          body = (if passport \<noteq> JNull then body(''passport'' \<mapsto> passport) else body);
          body = (if policy \<noteq> JNull then body(''policy'' \<mapsto> policy) else body)
      in body)"

text \<open>
  \<open>PolicyVerificationResponse\<close>: a dataclass, so each field holds whatever the payload
  had; a field left out is \<open>None\<close>.
\<close>

record policy_verification_response =
  decision_id :: json
  allow :: json
  reasons :: json
  assurance_level :: json
  expires_in :: json
  passport_digest :: json
  signature :: json
  created_at :: json
  meta :: json

text \<open>
  \<open>PolicyVerificationResponse.from_api_response\<close>. \<open>data.get\<close> raises \<open>AttributeError\<close>
  on a document that is no dictionary. \<open>dict(x)\<close> copies a dictionary; for a \<open>decision\<close>
  member that is no dictionary it is what the environment's \<open>dict_of_pairs\<close> makes of it.
  The constructor raises \<open>TypeError\<close> when \<open>decision_id\<close> or \<open>allow\<close> is missing.
\<close>

definition py_dict :: "env \<Rightarrow> json \<Rightarrow> py_exc + dict" where
  "py_dict e v = (case v of JObj d \<Rightarrow> Inr d | _ \<Rightarrow> dict_of_pairs e v)"

definition from_api_response :: "env \<Rightarrow> json \<Rightarrow> py_exc + policy_verification_response" where
  "from_api_response e data =
     (case data of
        JObj d \<Rightarrow>
          (let decision = dict_get d ''decision'' in
           case (if decision \<noteq> JNull then py_dict e decision else Inr d) of
             Inl x \<Rightarrow> Inl x
           | Inr payload0 \<Rightarrow>
               (let payload =
                      (if ''_meta'' \<in> dom d \<and> ''_meta'' \<notin> dom payload0
                       then payload0(''_meta'' \<mapsto> dict_get d ''_meta'') else payload0)
                in if ''decision_id'' \<in> dom payload \<and> ''allow'' \<in> dom payload then
                     Inr \<lparr>decision_id = dict_get payload ''decision_id'',
                          allow = dict_get payload ''allow'',
                          reasons = dict_get payload ''reasons'',
                          assurance_level = dict_get payload ''assurance_level'',
                          expires_in = dict_get payload ''expires_in'',
                          passport_digest = dict_get payload ''passport_digest'',
                          signature = dict_get payload ''signature'',
                          created_at = dict_get payload ''created_at'',
                          meta = dict_get payload ''_meta''\<rparr>
                   else Inl TypeError))
      | _ \<Rightarrow> Inl AttributeError)"

text \<open>The three verification operations. Each puts one request on the network.\<close>

definition parse_decision ::
  "env \<Rightarrow> (py_exc + json) \<times> http_request list
     \<Rightarrow> (py_exc + policy_verification_response) \<times> http_request list"
where
  "parse_decision e r =
     (case r of
        (Inl x, sent) \<Rightarrow> (Inl x, sent)
      | (Inr response_data, sent) \<Rightarrow> (from_api_response e response_data, sent))"

definition verify_policy ::
  "env \<Rightarrow> json \<Rightarrow> json \<Rightarrow> dict option \<Rightarrow> string option \<Rightarrow> json \<Rightarrow> json
     \<Rightarrow> (py_exc + policy_verification_response) \<times> http_request list"
where
  "verify_policy e agent_id policy_id context idempotency_key passport policy =
     (let body = build_policy_request_body agent_id policy_id idempotency_key context passport policy;
          path = (if policy \<noteq> JNull then VerifyPolicyInBody else VerifyPolicyPath policy_id)
      in parse_decision e (make_request e ''POST'' path (Some (JObj body)) idempotency_key))"

definition verify_policy_with_passport ::
  "env \<Rightarrow> json \<Rightarrow> json \<Rightarrow> dict option \<Rightarrow> string option
     \<Rightarrow> (py_exc + policy_verification_response) \<times> http_request list"
where
  "verify_policy_with_passport e passport policy_id context idempotency_key =
     (case py_get passport ''agent_id'' of
        Inl x \<Rightarrow> (Inl x, [])
      | Inr agent_id \<Rightarrow>
          (let body = build_policy_request_body agent_id policy_id idempotency_key
                        (Some (case context of None \<Rightarrow> Map.empty | Some c \<Rightarrow> c))
                        passport JNull
           in parse_decision e
                (make_request e ''POST'' (VerifyPolicyPath policy_id) (Some (JObj body))
                   idempotency_key)))"

definition verify_policy_with_policy_in_body ::
  "env \<Rightarrow> json \<Rightarrow> json \<Rightarrow> dict option \<Rightarrow> string option
     \<Rightarrow> (py_exc + policy_verification_response) \<times> http_request list"
where
  "verify_policy_with_policy_in_body e agent_id_or_passport policy context idempotency_key =
     (let passport = (case agent_id_or_passport of JObj p \<Rightarrow> JObj p | _ \<Rightarrow> JNull);
          agent_id = (case agent_id_or_passport of JObj p \<Rightarrow> dict_get p ''agent_id''
                      | v \<Rightarrow> v);
          body = build_policy_request_body agent_id
                   (case policy of JObj p \<Rightarrow> dict_get p ''id'' | _ \<Rightarrow> JNull)
                   idempotency_key
                   (Some (case context of None \<Rightarrow> Map.empty | Some c \<Rightarrow> c))
                   passport policy
      in parse_decision e
           (make_request e ''POST'' VerifyPolicyInBody (Some (JObj body)) idempotency_key))"

text \<open>\<open>APortClient.get_passport_view\<close>.\<close>

definition get_passport_view :: "env \<Rightarrow> json \<Rightarrow> (py_exc + json) \<times> http_request list" where
  "get_passport_view e agent_id = make_request e ''GET'' (PassportVerifyView agent_id) None None"

text \<open>
  A reading of \<open>time.time()\<close>: the seconds since the epoch, a real number that is never
  negative. \<open>at_second n\<close> is the reading \<open>n\<close> seconds after the epoch.
\<close>

typedef clock = "{t :: real. 0 \<le> t}"
  by (rule exI [of _ 0]) simp

setup_lifting type_definition_clock

lift_definition seconds :: "clock \<Rightarrow> real" is "\<lambda>t. t" .

lift_definition at_second :: "nat \<Rightarrow> clock" is "\<lambda>n. real n"
  by simp

text \<open>
  \<open>APortClient.get_jwks\<close> and its cache. The two readings of the clock (at the check, after
  the fetch) are arguments; the expiry kept in the cache is a number. \<open>Jwks(**data)\<close>
  raises \<open>TypeError\<close> unless the document is a dictionary with the one key \<open>keys\<close>. The
  function returns its result, the client's new state and the requests it sent. The
  cache is used when \<open>self.jwks_cache and self.jwks_cache_expiry and time.time() < expiry\<close>:
  a key set object is always true, a number is true unless it is zero.
\<close>

record jwks =
  keys :: json









section \<open>The middleware (middleware.py)\<close>

record options =
  opt_fail_closed :: bool
  opt_skip_paths :: "string list"
  opt_policy_id :: "string option"
  opt_passport_from_body :: bool
  opt_policy_from_body :: bool

text \<open>
  \<open>AgentPassportMiddlewareOptions.__init__\<close>, on the fields the pipeline reads: an empty
  skip list becomes the default one.
\<close>

definition options_init :: "options \<Rightarrow> options" where
  "options_init o1 =
     o1\<lparr>opt_skip_paths :=
          (if opt_skip_paths o1 \<noteq> [] then opt_skip_paths o1
           else [''/health'', ''/metrics'', ''/status''])\<rparr>"

text \<open>
  The incoming request: its method, the path of its URL, its headers (looked up by name
  in lower case, as \<open>request.headers.get\<close> ignores case) and the bytes of its body.
\<close>

record request =
  req_method :: string
  req_path :: string
  req_headers :: "string \<Rightarrow> string option"
  req_body :: string

text \<open>What the pipeline hands back: the next stage is called, or a \<open>JSONResponse\<close>.\<close>

datatype outcome = CallNext | JSONResponse int dict

text \<open>\<open>request.state\<close>: an attribute the pipeline never set is \<open>None\<close>.\<close>

record request_state =
  st_agent :: "dict option"
  st_policy_result :: "dict option"

datatype client_call =
    CallVerifyPolicy json json dict
  | CallVerifyPolicyWithPassport json json dict
  | CallVerifyPolicyWithPolicyInBody json json dict
  | CallGetPassportView json

text \<open>
  What a run leaves behind besides its result: the client operations invoked, the requests
  sent, and how often the request body was read.
\<close>

record trace =
  tr_calls :: "client_call list"
  tr_sent :: "http_request list"
  tr_reads :: nat

record run =
  run_outcome :: outcome
  run_state :: request_state
  run_trace :: trace

definition no_state :: request_state where
  "no_state = \<lparr>st_agent = None, st_policy_result = None\<rparr>"

definition truthy_dict :: "dict option \<Rightarrow> bool" where
  "truthy_dict v = (case v of None \<Rightarrow> False | Some d \<Rightarrow> d \<noteq> Map.empty)"

definition truthy_str :: "string option \<Rightarrow> bool" where
  "truthy_str v = (case v of None \<Rightarrow> False | Some s \<Rightarrow> s \<noteq> [])"

text \<open>\<open>request.headers.get(name)\<close>.\<close>

definition header :: "request \<Rightarrow> string \<Rightarrow> json" where
  "header req name = opt_str (req_headers req name)"

text \<open>\<open>extract_agent_id\<close>.\<close>

definition header_agent_id :: "request \<Rightarrow> json" where
  "header_agent_id req =
     py_or (header req ''x-agent-passport-id'') (py_or (header req ''x-agent-id'') JNull)"

definition extract_agent_id :: "request \<Rightarrow> json \<Rightarrow> json \<Rightarrow> bool \<Rightarrow> py_exc + json" where
  "extract_agent_id req provided_agent_id body_json passport_from_body =
     (if truthy provided_agent_id then Inr provided_agent_id
      else if passport_from_body \<and> truthy body_json then
        (case py_get body_json ''passport'' of
           Inl x \<Rightarrow> Inl x
         | Inr (JObj passport) \<Rightarrow>
             (let aid = dict_get passport ''agent_id''
              in if truthy aid then Inr aid else Inr (header_agent_id req))
         | Inr _ \<Rightarrow> Inr (header_agent_id req))
      else Inr (header_agent_id req))"

text \<open>\<open>_read_and_replay_body\<close>: the body is read once and parsed.\<close>

definition read_and_replay_body :: "env \<Rightarrow> request \<Rightarrow> py_exc + json" where
  "read_and_replay_body e req = loads_or_empty e (req_body req)"

text \<open>
  \<open>_decision_allow\<close> and \<open>_decision_meta\<close>, on the dataclass the client returns (it has
  both attributes).
\<close>

definition decision_allow :: "policy_verification_response \<Rightarrow> bool" where
  "decision_allow decision = truthy (allow decision)"

definition decision_meta :: "policy_verification_response \<Rightarrow> dict" where
  "decision_meta decision =
     [''decision_id'' \<mapsto> decision_id decision,
      ''reasons'' \<mapsto> py_or (reasons decision) (JArr [])]"

text \<open>\<open>should_skip_request\<close>: \<open>path.startswith(p)\<close> for some skip path \<open>p\<close>.\<close>

definition should_skip_request :: "request \<Rightarrow> string list \<Rightarrow> bool" where
  "should_skip_request req skip_paths =
     list_ex (\<lambda>p. take (length p) (req_path req) = p) skip_paths"

text \<open>\<open>create_error_response\<close>.\<close>

definition create_error_response :: "int \<Rightarrow> string \<Rightarrow> string \<Rightarrow> dict option \<Rightarrow> outcome" where
  "create_error_response status_code error message additional =
     (let response_data = [''error'' \<mapsto> JStr error, ''message'' \<mapsto> JStr message];
          response_data = (if truthy_dict additional
                           then response_data ++ (case additional of Some a \<Rightarrow> a | None \<Rightarrow> Map.empty)
                           else response_data)
      in JSONResponse status_code response_data)"

text \<open>
  The expression \<open>body_json.get(k) if enabled and isinstance(body_json.get(k), dict) else None\<close>
  that reads \<open>body.passport\<close> and \<open>body.policy\<close>: a dictionary or \<open>None\<close>.
\<close>

definition body_field :: "bool \<Rightarrow> json \<Rightarrow> string \<Rightarrow> py_exc + json" where
  "body_field enabled body_json k =
     (if enabled then
        (case py_get body_json k of
           Inl x \<Rightarrow> Inl x
         | Inr v \<Rightarrow> if is_dict v then Inr v else Inr JNull)
      else Inr JNull)"

text \<open>
  \<open>v.get(k) if v else None\<close>, for \<open>v\<close> a dictionary or \<open>None\<close> (\<open>body_passport\<close> and
  \<open>body_policy\<close> are).
\<close>

definition get_if_truthy :: "json \<Rightarrow> string \<Rightarrow> json" where
  "get_if_truthy v k =
     (case v of
        JObj d \<Rightarrow> if truthy v then dict_get d k else JNull
      | _ \<Rightarrow> JNull)"

text \<open>\<open>agent_id or (body_passport.get("agent_id") if body_passport else None)\<close>.\<close>

definition effective_agent_id :: "json \<Rightarrow> json \<Rightarrow> json" where
  "effective_agent_id agent_id body_passport =
     py_or agent_id (get_if_truthy body_passport ''agent_id'')"

text \<open>
  \<open>{k: v for k, v in body_json.items() if k not in ("passport", "policy")}\<close>; \<open>items\<close>
  exists on a dictionary only.
\<close>

definition request_context :: "json \<Rightarrow> py_exc + dict" where
  "request_context body_json =
     (case body_json of
        JObj d \<Rightarrow> Inr (d |` (- {''passport'', ''policy''}))
      | _ \<Rightarrow> Inl AttributeError)"

text \<open>
  The choice of the client operation (dispatch, lines 252 to 270; the same lines stand in
  the other three pipelines). It returns the operation's result, the requests sent and the
  operation invoked.
\<close>

definition select_and_verify ::
  "env \<Rightarrow> json \<Rightarrow> json \<Rightarrow> json \<Rightarrow> json \<Rightarrow> dict
     \<Rightarrow> (py_exc + policy_verification_response) \<times> http_request list \<times> client_call list"
where
  "select_and_verify e body_passport body_policy eff_agent_id configured_policy_id context =
     (if truthy body_policy then
        (let agent_id_or_passport = (if truthy body_passport then body_passport else eff_agent_id);
             r = verify_policy_with_policy_in_body e agent_id_or_passport body_policy
                   (Some context) None
         in (fst r, snd r,
             [CallVerifyPolicyWithPolicyInBody agent_id_or_passport body_policy context]))
      else if truthy body_passport then
        (let r = verify_policy_with_passport e body_passport configured_policy_id
                   (Some context) None
         in (fst r, snd r,
             [CallVerifyPolicyWithPassport body_passport configured_policy_id context]))
      else
        (let r = verify_policy e eff_agent_id configured_policy_id (Some context) None JNull JNull
         in (fst r, snd r, [CallVerifyPolicy eff_agent_id configured_policy_id context])))"

text \<open>
  What follows the decision (dispatch, lines 272 to 291): a denial is a 403 with the
  decision's identifier and reasons; otherwise the identity and three fields of the
  decision go onto the request state and the next stage is called. \<open>reported_policy_id\<close>
  is the value of the \<open>policy_id\<close> entry of the 403.
\<close>

definition translate_decision ::
  "json \<Rightarrow> json \<Rightarrow> policy_verification_response \<Rightarrow> outcome \<times> request_state"
where
  "translate_decision eff_agent_id reported_policy_id decision =
     (if \<not> decision_allow decision then
        (create_error_response 403 ''policy_violation'' ''Policy violation''
           (Some ([''agent_id'' \<mapsto> eff_agent_id, ''policy_id'' \<mapsto> reported_policy_id]
                    ++ decision_meta decision)),
         no_state)
      else
        (CallNext,
         \<lparr>st_agent = Some [''agent_id'' \<mapsto> eff_agent_id],
          st_policy_result =
            Some [''decision_id'' \<mapsto> decision_id decision,
                  ''allow'' \<mapsto> allow decision,
                  ''reasons'' \<mapsto> py_or (reasons decision) (JArr [])]\<rparr>))"

definition idle :: "nat \<Rightarrow> trace" where
  "idle n = \<lparr>tr_calls = [], tr_sent = [], tr_reads = n\<rparr>"

text \<open>
  The path without a policy (dispatch, lines 235 to 248). \<open>{"agent_id": x, **view}\<close> raises
  \<open>TypeError\<close> when the view is no dictionary; only an \<open>AportError\<close> is caught here.
\<close>

definition no_policy_path ::
  "env \<Rightarrow> json \<Rightarrow> json \<Rightarrow> nat \<Rightarrow> (py_exc + outcome \<times> request_state) \<times> trace"
where
  "no_policy_path e eff_agent_id body_passport n =
     (if truthy body_passport then
        (case body_passport of
           JObj p \<Rightarrow>
             (Inr (CallNext,
                   \<lparr>st_agent = Some ([''agent_id'' \<mapsto> dict_get p ''agent_id''] ++ p),
                    st_policy_result = None\<rparr>),
              idle n)
         | _ \<Rightarrow> (Inl AttributeError, idle n))
      else
        (let r = get_passport_view e eff_agent_id;
             tr = \<lparr>tr_calls = [CallGetPassportView eff_agent_id], tr_sent = snd r, tr_reads = n\<rparr>
         in (case fst r of
               Inr (JObj view) \<Rightarrow>
                 (Inr (CallNext,
                       \<lparr>st_agent = Some ([''agent_id'' \<mapsto> eff_agent_id] ++ view),
                        st_policy_result = None\<rparr>),
                  tr)
             | Inr _ \<Rightarrow> (Inl TypeError, tr)
             | Inl (AportError err) \<Rightarrow>
                 (Inr (create_error_response (err_status err) ''agent_verification_failed''
                         (aport_message e err) (Some [''agent_id'' \<mapsto> eff_agent_id]),
                       no_state),
                  tr)
             | Inl x \<Rightarrow> (Inl x, tr))))"

text \<open>
  The handlers that close every pipeline: \<open>except AportError\<close> answers with the
  failure's status, \<open>except Exception\<close> with 500.
\<close>

definition handle_exceptions :: "env \<Rightarrow> (py_exc + outcome \<times> request_state) \<times> trace \<Rightarrow> run" where
  "handle_exceptions e r =
     (case fst r of
        Inr fin \<Rightarrow> \<lparr>run_outcome = fst fin, run_state = snd fin, run_trace = snd r\<rparr>
      | Inl (AportError err) \<Rightarrow>
          \<lparr>run_outcome =
             create_error_response (err_status err) ''api_error'' (aport_message e err)
               (Some [''reasons'' \<mapsto> err_reasons err]),
           run_state = no_state, run_trace = snd r\<rparr>
      | Inl _ \<Rightarrow>
          \<lparr>run_outcome = create_error_response 500 ''internal_error'' ''Internal server error'' None,
           run_state = no_state, run_trace = snd r\<rparr>)"

definition missing_agent_id_message :: string where
  "missing_agent_id_message =
     ''Agent ID is required. Provide X-Agent-Passport-Id header or body.passport.''"

text \<open>Whether \<open>dispatch\<close> reads the body (line 210).\<close>

definition reads_body :: "options \<Rightarrow> request \<Rightarrow> bool" where
  "reads_body opts req =
     (req_method req = ''POST'' \<and>
      (truthy_str (opt_policy_id opts) \<or> opt_passport_from_body opts \<or> opt_policy_from_body opts))"

text \<open>The policy verification path (dispatch, lines 250 to 291).\<close>

definition policy_path ::
  "env \<Rightarrow> options \<Rightarrow> json \<Rightarrow> json \<Rightarrow> json \<Rightarrow> json \<Rightarrow> nat
     \<Rightarrow> (py_exc + outcome \<times> request_state) \<times> trace"
where
  "policy_path e opts body_json body_passport body_policy eff_agent_id n =
     (case request_context body_json of
        Inl x \<Rightarrow> (Inl x, idle n)
      | Inr context \<Rightarrow>
          (let r = select_and_verify e body_passport body_policy eff_agent_id
                     (opt_str (opt_policy_id opts)) context;
               tr = \<lparr>tr_calls = snd (snd r), tr_sent = fst (snd r), tr_reads = n\<rparr>
           in (case fst r of
                 Inl x \<Rightarrow> (Inl x, tr)
               | Inr decision \<Rightarrow>
                   (Inr (translate_decision eff_agent_id
                           (py_or (opt_str (opt_policy_id opts)) (get_if_truthy body_policy ''id''))
                           decision),
                    tr))))"

text \<open>
  The reading of the body (dispatch, lines 209 to 211): what \<open>body_json\<close> becomes, and how
  often the body was read in getting it.
\<close>

definition read_stage :: "env \<Rightarrow> options \<Rightarrow> request \<Rightarrow> (py_exc + json) \<times> nat" where
  "read_stage e opts req =
     (if reads_body opts req then (read_and_replay_body e req, 1) else (Inr (JObj Map.empty), 0))"

text \<open>
  The resolver (dispatch, lines 209 to 222): the parsed body, \<open>body_passport\<close>,
  \<open>body_policy\<close> and \<open>agent_id\<close>, or the exception one of these steps raises.
\<close>

definition resolve :: "env \<Rightarrow> options \<Rightarrow> request \<Rightarrow> py_exc + json \<times> json \<times> json \<times> json" where
  "resolve e opts req =
     (case fst (read_stage e opts req) of
        Inl x \<Rightarrow> Inl x
      | Inr body_json \<Rightarrow>
      (case body_field (opt_passport_from_body opts) body_json ''passport'' of
        Inl x \<Rightarrow> Inl x
      | Inr body_passport \<Rightarrow>
      (case body_field (opt_policy_from_body opts) body_json ''policy'' of
        Inl x \<Rightarrow> Inl x
      | Inr body_policy \<Rightarrow>
      (case extract_agent_id req JNull body_json (opt_passport_from_body opts) of
        Inl x \<Rightarrow> Inl x
      | Inr agent_id \<Rightarrow> Inr (body_json, body_passport, body_policy, agent_id)))))"

text \<open>\<open>AgentPassportMiddleware.dispatch\<close>: the body of its \<open>try\<close>, then the handlers.\<close>

definition dispatch_try ::
  "env \<Rightarrow> options \<Rightarrow> request \<Rightarrow> (py_exc + outcome \<times> request_state) \<times> trace"
where
  "dispatch_try e opts req =
     (if should_skip_request req (opt_skip_paths opts) then (Inr (CallNext, no_state), idle 0)
      else
        (let n = snd (read_stage e opts req) in
         case resolve e opts req of
           Inl x \<Rightarrow> (Inl x, idle n)
         | Inr (body_json, body_passport, body_policy, agent_id) \<Rightarrow>
             if \<not> truthy agent_id \<and> \<not> truthy body_passport then
               (if opt_fail_closed opts then
                  (Inr (create_error_response 401 ''missing_agent_id'' missing_agent_id_message None,
                        no_state),
                   idle n)
                else (Inr (CallNext, no_state), idle n))
             else
               (let eff_agent_id = effective_agent_id agent_id body_passport in
                if \<not> truthy_str (opt_policy_id opts) \<and> \<not> truthy body_policy then
                  no_policy_path e eff_agent_id body_passport n
                else policy_path e opts body_json body_passport body_policy eff_agent_id n)))"

definition dispatch :: "env \<Rightarrow> options \<Rightarrow> request \<Rightarrow> run" where
  "dispatch e opts req = handle_exceptions e (dispatch_try e opts req)"

text \<open>
  \<open>agent_passport_middleware\<close>: the options are built anew from the given ones, and the
  closure's body (lines 324 to 415) is written out as \<open>dispatch\<close>'s is; its lines 329 to
  336 are the resolver again.
\<close>

definition agent_passport_middleware_try ::
  "env \<Rightarrow> options \<Rightarrow> request \<Rightarrow> (py_exc + outcome \<times> request_state) \<times> trace"
where
  "agent_passport_middleware_try e opts req =
     (if should_skip_request req (opt_skip_paths opts) then (Inr (CallNext, no_state), idle 0)
      else
        (let n = snd (read_stage e opts req) in
         case resolve e opts req of
           Inl x \<Rightarrow> (Inl x, idle n)
         | Inr (body_json, body_passport, body_policy, agent_id) \<Rightarrow>
             if \<not> truthy agent_id \<and> \<not> truthy body_passport then
               (if opt_fail_closed opts then
                  (Inr (create_error_response 401 ''missing_agent_id'' missing_agent_id_message None,
                        no_state),
                   idle n)
                else (Inr (CallNext, no_state), idle n))
             else
               (let eff_agent_id = effective_agent_id agent_id body_passport in
                if \<not> truthy_str (opt_policy_id opts) \<and> \<not> truthy body_policy then
                  no_policy_path e eff_agent_id body_passport n
                else policy_path e opts body_json body_passport body_policy eff_agent_id n)))"

definition agent_passport_middleware :: "env \<Rightarrow> options \<Rightarrow> request \<Rightarrow> run" where
  "agent_passport_middleware e given req =
     (let opts = options_init given
      in handle_exceptions e (agent_passport_middleware_try e opts req))"

text \<open>
  \<open>require_policy_with_context\<close>: a policy id and an override context are fixed when the
  middleware is made; no path is skipped, and the body of every POST is read.
\<close>

definition missing_agent_id_message_route :: string where
  "missing_agent_id_message_route =
     ''Agent ID is required. Provide X-Agent-Passport-Id header, function parameter, or body.passport.''"

definition resolve_route ::
  "env \<Rightarrow> string option \<Rightarrow> request \<Rightarrow> py_exc + json \<times> json \<times> json \<times> json"
where
  "resolve_route e given_agent_id req =
     (case (if req_method req = ''POST'' then read_and_replay_body e req else Inr (JObj Map.empty)) of
        Inl x \<Rightarrow> Inl x
      | Inr body_json \<Rightarrow>
      (case body_field True body_json ''passport'' of
        Inl x \<Rightarrow> Inl x
      | Inr body_passport \<Rightarrow>
      (case body_field True body_json ''policy'' of
        Inl x \<Rightarrow> Inl x
      | Inr body_policy \<Rightarrow>
      (case extract_agent_id req (opt_str given_agent_id) body_json True of
        Inl x \<Rightarrow> Inl x
      | Inr extracted_agent_id \<Rightarrow>
          Inr (body_json, body_passport, body_policy, extracted_agent_id)))))"

text \<open>\<open>{**request_context, **context}\<close> (lines 538 and 539).\<close>

definition merged_context :: "json \<Rightarrow> dict \<Rightarrow> py_exc + dict" where
  "merged_context body_json context =
     (case request_context body_json of
        Inl x \<Rightarrow> Inl x
      | Inr request_ctx \<Rightarrow> Inr (request_ctx ++ context))"

definition require_policy_with_context_try ::
  "env \<Rightarrow> string \<Rightarrow> dict \<Rightarrow> string option \<Rightarrow> request
     \<Rightarrow> (py_exc + outcome \<times> request_state) \<times> trace"
where
  "require_policy_with_context_try e configured_policy_id context given_agent_id req =
     (let n = (if req_method req = ''POST'' then 1 else 0) in
      case resolve_route e given_agent_id req of
        Inl x \<Rightarrow> (Inl x, idle n)
      | Inr (body_json, body_passport, body_policy, extracted_agent_id) \<Rightarrow>
          if \<not> truthy extracted_agent_id \<and> \<not> truthy body_passport then
            (Inr (create_error_response 401 ''missing_agent_id'' missing_agent_id_message_route None,
                  no_state),
             idle n)
          else
            (let eff_agent_id = effective_agent_id extracted_agent_id body_passport in
             case merged_context body_json context of
               Inl x \<Rightarrow> (Inl x, idle n)
             | Inr merged \<Rightarrow>
                 (let r = select_and_verify e body_passport body_policy eff_agent_id
                            (JStr configured_policy_id) merged;
                      tr = \<lparr>tr_calls = snd (snd r), tr_sent = fst (snd r), tr_reads = n\<rparr>
                  in (case fst r of
                        Inl x \<Rightarrow> (Inl x, tr)
                      | Inr decision \<Rightarrow>
                          (Inr (translate_decision eff_agent_id (JStr configured_policy_id) decision),
                           tr)))))"

definition require_policy_with_context ::
  "env \<Rightarrow> string \<Rightarrow> dict \<Rightarrow> string option \<Rightarrow> request \<Rightarrow> run"
where
  "require_policy_with_context e configured_policy_id context given_agent_id req =
     handle_exceptions e
       (require_policy_with_context_try e configured_policy_id context given_agent_id req)"

section \<open>Reading a run\<close>

text \<open>The status and the entries of a rejection, and the contexts of a call and of a request.\<close>

definition response_status :: "outcome \<Rightarrow> int option" where
  "response_status out = (case out of CallNext \<Rightarrow> None | JSONResponse status_code content \<Rightarrow> Some status_code)"

definition response_field :: "outcome \<Rightarrow> string \<Rightarrow> json option" where
  "response_field out k = (case out of CallNext \<Rightarrow> None | JSONResponse status_code content \<Rightarrow> content k)"

definition call_context :: "client_call \<Rightarrow> dict" where
  "call_context c =
     (case c of
        CallVerifyPolicy a p ctx \<Rightarrow> ctx
      | CallVerifyPolicyWithPassport pass p ctx \<Rightarrow> ctx
      | CallVerifyPolicyWithPolicyInBody a pol ctx \<Rightarrow> ctx
      | CallGetPassportView a \<Rightarrow> Map.empty)"

definition wire_context :: "http_request \<Rightarrow> dict" where
  "wire_context rq =
     (case rq_json rq of
        Some (JObj body) \<Rightarrow> (case body ''context'' of Some (JObj ctx) \<Rightarrow> ctx | _ \<Rightarrow> Map.empty)
      | _ \<Rightarrow> Map.empty)"

section \<open>Sample requests and services\<close>

text \<open>
  Concrete inputs on which the theorems below are exercised. \<open>sample_loads\<close> agrees with
  \<open>json.loads\<close> on the texts it knows and reports a \<open>JSONDecodeError\<close> on any other.
\<close>

definition passport_policy_text :: string where
  \<open>passport_policy_text =
     ''{"passport": {"agent_id": "x"}, "policy": {"id": "custom", "requires_capabilities": []}}''\<close>

definition passport_policy_doc :: json where
  "passport_policy_doc =
     JObj [''passport'' \<mapsto> JObj [''agent_id'' \<mapsto> JStr ''x''],
           ''policy'' \<mapsto> JObj [''id'' \<mapsto> JStr ''custom'', ''requires_capabilities'' \<mapsto> JArr []]]"

definition amount_text :: string where
  \<open>amount_text = ''{"agent_id": "b", "amount": 5}''\<close>

definition amount_doc :: json where
  "amount_doc = JObj [''agent_id'' \<mapsto> JStr ''b'', ''amount'' \<mapsto> JInt 5]"

definition deny_text :: string where
  \<open>deny_text =
     ''{"decision": {"decision_id": "d1", "allow": false, "reasons": [{"code": "CAP_MISSING"}]}}''\<close>

definition deny_doc :: json where
  "deny_doc =
     JObj [''decision'' \<mapsto>
       JObj [''decision_id'' \<mapsto> JStr ''d1'', ''allow'' \<mapsto> JBool False,
             ''reasons'' \<mapsto> JArr [JObj [''code'' \<mapsto> JStr ''CAP_MISSING'']]]]"

definition allow_text :: string where
  \<open>allow_text =
     ''{"decision": {"decision_id": "d1", "allow": true, "reasons": [], "assurance_level": "L2"}}''\<close>

definition allow_doc :: json where
  "allow_doc =
     JObj [''decision'' \<mapsto>
       JObj [''decision_id'' \<mapsto> JStr ''d1'', ''allow'' \<mapsto> JBool True,
             ''reasons'' \<mapsto> JArr [], ''assurance_level'' \<mapsto> JStr ''L2'']]"

definition jwks_text :: string where
  \<open>jwks_text = ''{"keys": [{"kid": "k1", "kty": "RSA"}]}''\<close>

definition jwks_keys :: json where
  "jwks_keys = JArr [JObj [''kid'' \<mapsto> JStr ''k1'', ''kty'' \<mapsto> JStr ''RSA'']]"

definition jwks_doc :: json where
  "jwks_doc = JObj [''keys'' \<mapsto> jwks_keys]"

definition jwks_extra_text :: string where
  \<open>jwks_extra_text = ''{"keys": [], "extra": 1}''\<close>

definition jwks_extra_doc :: json where
  "jwks_extra_doc = JObj [''keys'' \<mapsto> JArr [], ''extra'' \<mapsto> JInt 1]"

definition array_text :: string where
  \<open>array_text = ''[1, 2]''\<close>

definition array_doc :: json where
  "array_doc = JArr [JInt 1, JInt 2]"

definition pairs_text :: string where
  \<open>pairs_text = ''{"decision": [["decision_id", "d1"], ["allow", true]]}''\<close>

definition pairs_doc :: json where
  "pairs_doc =
     JObj [''decision'' \<mapsto>
       JArr [JArr [JStr ''decision_id'', JStr ''d1''], JArr [JStr ''allow'', JBool True]]]"

definition passport_text :: string where
  \<open>passport_text = ''{"passport": {"agent_id": "x", "owner": "acme"}}''\<close>

definition passport_doc :: json where
  "passport_doc =
     JObj [''passport'' \<mapsto> JObj [''agent_id'' \<mapsto> JStr ''x'', ''owner'' \<mapsto> JStr ''acme'']]"

definition sample_loads :: "string \<Rightarrow> loads_result" where
  "sample_loads s =
     (if s = passport_policy_text then Parsed passport_policy_doc
      else if s = amount_text then Parsed amount_doc
      else if s = deny_text then Parsed deny_doc
      else if s = allow_text then Parsed allow_doc
      else if s = jwks_text then Parsed jwks_doc
      else if s = jwks_extra_text then Parsed jwks_extra_doc
      else if s = array_text then Parsed array_doc
      else if s = pairs_text then Parsed pairs_doc
      else if s = passport_text then Parsed passport_doc
      else LoadsRaises JSONDecodeError)"

text \<open>
  \<open>sample_dict_of_pairs\<close> is \<open>dict()\<close> on the lists of \<open>[name, value]\<close> pairs, where a later
  pair replaces an earlier one of the same name. The values that are no such list are not
  used below; on those it reports a \<open>TypeError\<close>.
\<close>

fun pairs_dict :: "json list \<Rightarrow> py_exc + dict" where
  "pairs_dict [] = Inr Map.empty"
| "pairs_dict (JArr [JStr k, v] # rest) =
     (case pairs_dict rest of Inl x \<Rightarrow> Inl x | Inr m \<Rightarrow> Inr ([k \<mapsto> v] ++ m))"
| "pairs_dict (x # rest) = Inl TypeError"

definition sample_dict_of_pairs :: "json \<Rightarrow> py_exc + dict" where
  "sample_dict_of_pairs v = (case v of JArr xs \<Rightarrow> pairs_dict xs | _ \<Rightarrow> Inl TypeError)"

definition answers :: "string \<Rightarrow> http_request \<Rightarrow> transport_outcome" where
  "answers text rq =
     Responded \<lparr>resp_ok = True, resp_status = 200, resp_server_timing = None, resp_text = text\<rparr>"

definition sample_env :: "(http_request \<Rightarrow> transport_outcome) \<Rightarrow> env" where
  "sample_env service =
     \<lparr>json_loads = sample_loads, session_request = service,
      aport_message = (\<lambda>err. ''API request failed''), api_key = None,
      dict_of_pairs = sample_dict_of_pairs\<rparr>"

definition sample_options :: "string option \<Rightarrow> options" where
  "sample_options configured =
     \<lparr>opt_fail_closed = True, opt_skip_paths = [''/health'', ''/metrics'', ''/status''],
      opt_policy_id = configured, opt_passport_from_body = True, opt_policy_from_body = True\<rparr>"

definition sample_request :: "string \<Rightarrow> string \<Rightarrow> (string \<Rightarrow> string option) \<Rightarrow> string \<Rightarrow> request" where
  "sample_request method path headers body =
     \<lparr>req_method = method, req_path = path, req_headers = headers, req_body = body\<rparr>"

section \<open>Properties of the client\<close>

lemmas sample_texts =
  passport_policy_text_def amount_text_def deny_text_def allow_text_def jwks_text_def
  jwks_extra_text_def array_text_def pairs_text_def passport_text_def

lemma dict_get_upd [simp]: "dict_get (d(k \<mapsto> v)) k' = (if k' = k then v else dict_get d k')"
  by (simp add: dict_get_def)

lemma dict_get_empty [simp]: "dict_get Map.empty k = JNull"
  by (simp add: dict_get_def)

lemma sent_make_request:
  "snd (make_request e m p d i) =
     [\<lparr>rq_method = m, rq_endpoint = p, rq_headers = get_headers e i, rq_json = d\<rparr>]"
  by (simp add: make_request_def Let_def)

lemma sent_parse_decision [simp]: "snd (parse_decision e r) = snd r"
  by (cases r) (simp add: parse_decision_def split: sum.splits)

lemma response_json_plain:
  "resp_ok r \<Longrightarrow> resp_server_timing r = None \<Longrightarrow> loads_or_empty e (resp_text r) = Inr j
     \<Longrightarrow> response_json e r = Inr j"
  by (simp add: response_json_def)

lemma make_request_answers:
  "make_request (sample_env (answers t)) m p d i =
     (response_json (sample_env (answers t))
        \<lparr>resp_ok = True, resp_status = 200, resp_server_timing = None, resp_text = t\<rparr>,
      [\<lparr>rq_method = m, rq_endpoint = p,
        rq_headers = get_headers (sample_env (answers t)) i, rq_json = d\<rparr>])"
  by (simp add: make_request_def Let_def answers_def sample_env_def)

lemma sample_loads_jwks: "loads_or_empty (sample_env service) jwks_text = Inr jwks_doc"
  by (simp add: loads_or_empty_def sample_env_def sample_loads_def sample_texts)

text \<open>
  C10. The context the client puts on the wire is the caller's context with the keys
  \<open>agent_id\<close>, \<open>policy_id\<close> and \<open>idempotency_key\<close> set to the call's own values, each only
  when that value is not \<open>None\<close>; every other key is as the caller gave it. The body has a
  \<open>passport\<close> entry exactly when a passport is supplied and a \<open>policy\<close> entry exactly when a
  policy is. Each of the three verification operations sends one request, whose body is
  built this way from the operation's own arguments.
\<close>

theorem C10_wire_context_frame:
  "(\<exists>ctx. build_policy_request_body a p i c pass pol ''context'' = Some (JObj ctx) \<and>
      (\<forall>k. ctx k =
         (if k = ''agent_id'' \<and> a \<noteq> JNull then Some a
          else if k = ''policy_id'' \<and> p \<noteq> JNull then Some p
          else if k = ''idempotency_key'' \<and> i \<noteq> None then map_option JStr i
          else (case c of None \<Rightarrow> None | Some c0 \<Rightarrow> c0 k))))
   \<and> build_policy_request_body a p i c pass pol ''passport'' = (if pass = JNull then None else Some pass)
   \<and> build_policy_request_body a p i c pass pol ''policy'' = (if pol = JNull then None else Some pol)
   \<and> map rq_json (snd (verify_policy e a p c i pass pol)) =
       [Some (JObj (build_policy_request_body a p i c pass pol))]
   \<and> map rq_json (snd (verify_policy_with_passport e (JObj pd) p c i)) =
       [Some (JObj (build_policy_request_body (dict_get pd ''agent_id'') p i c (JObj pd) JNull))]
   \<and> map rq_json (snd (verify_policy_with_policy_in_body e (JObj pd) (JObj pk) c i)) =
       [Some (JObj (build_policy_request_body (dict_get pd ''agent_id'') (dict_get pk ''id'') i c
                      (JObj pd) (JObj pk)))]
   \<and> map rq_json (snd (verify_policy_with_policy_in_body e (JStr s) (JObj pk) c i)) =
       [Some (JObj (build_policy_request_body (JStr s) (dict_get pk ''id'') i c JNull (JObj pk)))]"
proof -
  have same: "\<And>x y z u v. build_policy_request_body x y i (Some (case c of None \<Rightarrow> Map.empty | Some c0 \<Rightarrow> c0)) u v
      = build_policy_request_body x y i c u v"
    by (cases c) (simp_all add: build_policy_request_body_def)
  have ctx: "\<exists>ctx. build_policy_request_body a p i c pass pol ''context'' = Some (JObj ctx) \<and>
      (\<forall>k. ctx k =
         (if k = ''agent_id'' \<and> a \<noteq> JNull then Some a
          else if k = ''policy_id'' \<and> p \<noteq> JNull then Some p
          else if k = ''idempotency_key'' \<and> i \<noteq> None then map_option JStr i
          else (case c of None \<Rightarrow> None | Some c0 \<Rightarrow> c0 k)))"
    by (auto simp: build_policy_request_body_def Let_def split: option.splits)
  have pass: "build_policy_request_body a p i c pass pol ''passport'' = (if pass = JNull then None else Some pass)"
    and pol: "build_policy_request_body a p i c pass pol ''policy'' = (if pol = JNull then None else Some pol)"
    by (auto simp: build_policy_request_body_def Let_def split: option.splits)
  have v1: "map rq_json (snd (verify_policy e a p c i pass pol)) =
       [Some (JObj (build_policy_request_body a p i c pass pol))]"
    by (simp add: verify_policy_def Let_def sent_make_request)
  have v2: "map rq_json (snd (verify_policy_with_passport e (JObj pd) p c i)) =
       [Some (JObj (build_policy_request_body (dict_get pd ''agent_id'') p i c (JObj pd) JNull))]"
    by (simp add: verify_policy_with_passport_def Let_def sent_make_request same)
  have v3: "map rq_json (snd (verify_policy_with_policy_in_body e (JObj pd) (JObj pk) c i)) =
       [Some (JObj (build_policy_request_body (dict_get pd ''agent_id'') (dict_get pk ''id'') i c
                      (JObj pd) (JObj pk)))]"
    by (simp add: verify_policy_with_policy_in_body_def Let_def sent_make_request same)
  have v4: "map rq_json (snd (verify_policy_with_policy_in_body e (JStr s) (JObj pk) c i)) =
       [Some (JObj (build_policy_request_body (JStr s) (dict_get pk ''id'') i c JNull (JObj pk)))]"
    by (simp add: verify_policy_with_policy_in_body_def Let_def sent_make_request same)
  from ctx pass pol v1 v2 v3 v4 show ?thesis by blast
qed


lemma seconds_at_second [simp]: "seconds (at_second n) = real n"
  by transfer simp





















section \<open>Properties of the pipeline\<close>

lemma fst_read_stage [simp]:
  "fst (read_stage e opts req) =
     (if reads_body opts req then read_and_replay_body e req else Inr (JObj Map.empty))"
  by (simp add: read_stage_def)

lemma snd_read_stage [simp]: "snd (read_stage e opts req) = (if reads_body opts req then 1 else 0)"
  by (simp add: read_stage_def)

lemma handle_exceptions_Inr [simp]:
  "handle_exceptions e (Inr (out, st), tr) = \<lparr>run_outcome = out, run_state = st, run_trace = tr\<rparr>"
  by (simp add: handle_exceptions_def)

lemma handle_exceptions_aport [simp]:
  "handle_exceptions e (Inl (AportError err), tr) =
     \<lparr>run_outcome = JSONResponse (err_status err)
        [''error'' \<mapsto> JStr ''api_error'', ''message'' \<mapsto> JStr (aport_message e err),
         ''reasons'' \<mapsto> err_reasons err],
      run_state = no_state, run_trace = tr\<rparr>"
  by (simp add: handle_exceptions_def create_error_response_def truthy_dict_def)

lemma run_trace_handle_exceptions [simp]: "run_trace (handle_exceptions e r) = snd r"
  by (simp add: handle_exceptions_def split: sum.splits py_exc.splits)

lemma body_field_obj:
  "body_field enabled (JObj d) k =
     Inr (if enabled \<and> is_dict (dict_get d k) then dict_get d k else JNull)"
  by (simp add: body_field_def)

lemma body_field_shape: "body_field enabled bj k = Inr v \<Longrightarrow> v = JNull \<or> is_dict v"
  by (auto simp: body_field_def split: if_splits sum.splits)

lemma extract_agent_id_obj:
  "extract_agent_id req JNull (JObj d) pfb =
     Inr (if pfb \<and> is_dict (dict_get d ''passport'') \<and>
             truthy (get_if_truthy (dict_get d ''passport'') ''agent_id'')
          then get_if_truthy (dict_get d ''passport'') ''agent_id'' else header_agent_id req)"
  by (cases "dict_get d ''passport''")
     (auto simp: extract_agent_id_def get_if_truthy_def Let_def dict_get_def split: option.splits)

lemma resolve_shape:
  assumes "resolve e opts req = Inr (bj, bp, bpol, aid)"
  shows "(bp = JNull \<or> is_dict bp) \<and> (bpol = JNull \<or> is_dict bpol)"
  using assms
  by (auto simp: resolve_def split: sum.splits dest: body_field_shape)

lemma resolve_fields:
  assumes "resolve e opts req = Inr (JObj d, bp, bpol, aid)"
  shows "bp = (if opt_passport_from_body opts \<and> is_dict (dict_get d ''passport'')
               then dict_get d ''passport'' else JNull)"
    and "bpol = (if opt_policy_from_body opts \<and> is_dict (dict_get d ''policy'')
                 then dict_get d ''policy'' else JNull)"
  using assms
  by (auto simp: resolve_def body_field_obj split: sum.splits if_splits)

lemma resolve_obj:
  assumes "(if reads_body opts req then read_and_replay_body e req else Inr (JObj Map.empty))
             = Inr (JObj d)"
  shows "resolve e opts req =
     Inr (JObj d,
          (if opt_passport_from_body opts \<and> is_dict (dict_get d ''passport'')
           then dict_get d ''passport'' else JNull),
          (if opt_policy_from_body opts \<and> is_dict (dict_get d ''policy'')
           then dict_get d ''policy'' else JNull),
          (if opt_passport_from_body opts \<and> is_dict (dict_get d ''passport'') \<and>
              truthy (get_if_truthy (dict_get d ''passport'') ''agent_id'')
           then get_if_truthy (dict_get d ''passport'') ''agent_id'' else header_agent_id req))"
  unfolding resolve_def fst_read_stage assms by (simp add: body_field_obj extract_agent_id_obj)

lemma middleware_try_is_dispatch_try:
  "agent_passport_middleware_try e opts req = dispatch_try e opts req"
  unfolding agent_passport_middleware_try_def dispatch_try_def by (rule refl)

lemma middleware_is_dispatch:
  "agent_passport_middleware e given req = dispatch e (options_init given) req"
  unfolding agent_passport_middleware_def dispatch_def Let_def
  by (simp only: middleware_try_is_dispatch_try)

lemma dispatch_resolved:
  assumes "\<not> should_skip_request req (opt_skip_paths opts)"
      and "resolve e opts req = Inr (bj, bp, bpol, aid)"
      and "truthy aid \<or> truthy bp"
      and "truthy_str (opt_policy_id opts) \<or> truthy bpol"
  shows "dispatch e opts req =
     handle_exceptions e (policy_path e opts bj bp bpol (effective_agent_id aid bp)
       (if reads_body opts req then 1 else 0))"
  using assms by (auto simp: dispatch_def dispatch_try_def Let_def)

lemma select_and_verify_calls:
  "snd (snd (select_and_verify e bp bpol eff pid ctx)) =
     [if truthy bpol then CallVerifyPolicyWithPolicyInBody (if truthy bp then bp else eff) bpol ctx
      else if truthy bp then CallVerifyPolicyWithPassport bp pid ctx
      else CallVerifyPolicy eff pid ctx]"
  by (simp add: select_and_verify_def Let_def)

lemma sent_verify_policy: "length (snd (verify_policy e a p c i pass pol)) = 1"
  by (simp add: verify_policy_def Let_def sent_make_request)

lemma sent_verify_policy_with_passport:
  "is_dict pass \<Longrightarrow> length (snd (verify_policy_with_passport e pass p c i)) = 1"
  by (cases pass) (simp_all add: verify_policy_with_passport_def Let_def sent_make_request)

lemma sent_verify_policy_with_policy_in_body:
  "length (snd (verify_policy_with_policy_in_body e a pol c i)) = 1"
  by (simp add: verify_policy_with_policy_in_body_def Let_def sent_make_request)

lemma select_and_verify_sent:
  assumes "bp = JNull \<or> is_dict bp"
  shows "length (fst (snd (select_and_verify e bp bpol eff pid ctx))) = 1"
  using assms
  by (auto simp: select_and_verify_def Let_def sent_verify_policy
      sent_verify_policy_with_passport sent_verify_policy_with_policy_in_body)

lemma policy_path_trace:
  "run_trace (handle_exceptions e (policy_path e opts (JObj d) bp bpol eff n)) =
     \<lparr>tr_calls = snd (snd (select_and_verify e bp bpol eff (opt_str (opt_policy_id opts))
                              (d |` (- {''passport'', ''policy''})))),
      tr_sent = fst (snd (select_and_verify e bp bpol eff (opt_str (opt_policy_id opts))
                              (d |` (- {''passport'', ''policy''})))),
      tr_reads = n\<rparr>"
  by (simp add: policy_path_def request_context_def Let_def split: sum.splits)

text \<open>
  C1, as amended. A request whose path starts with no skip path, whose body (when the
  pipeline reads it) parses to a JSON object, which has neither of the two identity
  headers with a value, and whose body has no non-empty \<open>passport\<close> object that the
  options honour: with \<open>fail_closed\<close> the pipeline answers 401 \<open>missing_agent_id\<close>; without
  it the next stage is called, the request state is untouched, no client operation is
  invoked and nothing is sent. The middleware made by \<open>agent_passport_middleware\<close> does the
  same.
\<close>

theorem C1_missing_identity:
  assumes "\<not> should_skip_request req (opt_skip_paths opts)"
      and "(if reads_body opts req then read_and_replay_body e req else Inr (JObj Map.empty))
             = Inr (JObj d)"
      and "\<not> truthy (header_agent_id req)"
      and "\<not> (opt_passport_from_body opts \<and> is_dict (dict_get d ''passport'') \<and>
               truthy (dict_get d ''passport''))"
  shows "dispatch e opts req =
     \<lparr>run_outcome =
        (if opt_fail_closed opts
         then JSONResponse 401 [''error'' \<mapsto> JStr ''missing_agent_id'',
                                ''message'' \<mapsto> JStr missing_agent_id_message]
         else CallNext),
      run_state = no_state,
      run_trace = \<lparr>tr_calls = [], tr_sent = [],
                    tr_reads = (if reads_body opts req then 1 else 0)\<rparr>\<rparr>
    \<and> (\<forall>given. options_init given = opts \<longrightarrow>
          agent_passport_middleware e given req = dispatch e opts req)"
proof -
  have falsy: "\<not> truthy (if opt_passport_from_body opts \<and> is_dict (dict_get d ''passport'')
                          then dict_get d ''passport'' else JNull)"
    using assms(4) by auto
  have no_aid: "\<not> (opt_passport_from_body opts \<and> is_dict (dict_get d ''passport'') \<and>
              truthy (get_if_truthy (dict_get d ''passport'') ''agent_id''))"
    using assms(4) by (cases "dict_get d ''passport''") (auto simp: get_if_truthy_def)
  have "dispatch e opts req =
     \<lparr>run_outcome =
        (if opt_fail_closed opts
         then JSONResponse 401 [''error'' \<mapsto> JStr ''missing_agent_id'',
                                ''message'' \<mapsto> JStr missing_agent_id_message]
         else CallNext),
      run_state = no_state,
      run_trace = \<lparr>tr_calls = [], tr_sent = [],
                    tr_reads = (if reads_body opts req then 1 else 0)\<rparr>\<rparr>"
  proof -
    obtain bp bpol where res: "resolve e opts req = Inr (JObj d, bp, bpol, header_agent_id req)"
      and bp: "\<not> truthy bp"
      using resolve_obj [OF assms(2)] falsy no_aid by auto
    show ?thesis
      unfolding dispatch_def dispatch_try_def
      using assms(1,3) bp
      by (simp add: res Let_def create_error_response_def truthy_dict_def idle_def)
  qed
  then show ?thesis by (simp add: middleware_is_dispatch)
qed

lemma sample_not_skipped:
  "\<not> should_skip_request (sample_request m ''/orders'' h b) (opt_skip_paths (sample_options c))"
  by (simp add: should_skip_request_def sample_request_def sample_options_def)

lemma sample_skipped:
  "should_skip_request (sample_request m ''/health'' h b) (opt_skip_paths (sample_options c))"
  by (simp add: should_skip_request_def sample_request_def sample_options_def)

lemma sample_loads_texts:
  "loads_or_empty (sample_env service) passport_policy_text = Inr passport_policy_doc"
  "loads_or_empty (sample_env service) amount_text = Inr amount_doc"
  "loads_or_empty (sample_env service) deny_text = Inr deny_doc"
  "loads_or_empty (sample_env service) allow_text = Inr allow_doc"
  by (simp_all add: loads_or_empty_def sample_env_def sample_loads_def sample_texts)

text \<open>
  C1 as stated fails on a skipped path: with \<open>fail_closed\<close> set, a request for \<open>/health\<close>
  that has no identity header and no body is passed on, not answered with 401.
\<close>

theorem C1_skip_path_counterexample:
  "opt_fail_closed (sample_options None)
   \<and> \<not> truthy (header_agent_id (sample_request ''GET'' ''/health'' Map.empty []))
   \<and> req_body (sample_request ''GET'' ''/health'' Map.empty []) = []
   \<and> run_outcome (dispatch (sample_env (answers allow_text)) (sample_options None)
        (sample_request ''GET'' ''/health'' Map.empty [])) = CallNext"
  by (simp add: dispatch_def dispatch_try_def sample_skipped)
     (simp add: sample_options_def sample_request_def header_agent_id_def header_def py_or_def opt_str_def)

theorem C1_missing_identity_witness:
  "dispatch (sample_env (answers allow_text)) (sample_options None)
     (sample_request ''GET'' ''/orders'' Map.empty []) =
     \<lparr>run_outcome = JSONResponse 401 [''error'' \<mapsto> JStr ''missing_agent_id'',
                                      ''message'' \<mapsto> JStr missing_agent_id_message],
      run_state = no_state,
      run_trace = \<lparr>tr_calls = [], tr_sent = [], tr_reads = 0\<rparr>\<rparr>
   \<and> agent_passport_middleware (sample_env (answers allow_text)) (sample_options None)
        (sample_request ''GET'' ''/orders'' Map.empty []) =
      dispatch (sample_env (answers allow_text)) (sample_options None)
        (sample_request ''GET'' ''/orders'' Map.empty [])
   \<and> dispatch (sample_env (answers allow_text)) ((sample_options None)\<lparr>opt_fail_closed := False\<rparr>)
       (sample_request ''POST'' ''/orders'' Map.empty amount_text) =
     \<lparr>run_outcome = CallNext, run_state = no_state,
      run_trace = \<lparr>tr_calls = [], tr_sent = [], tr_reads = 1\<rparr>\<rparr>"
proof -
  let ?e = "sample_env (answers allow_text)"
  let ?get = "sample_request ''GET'' ''/orders'' Map.empty []"
  let ?post = "sample_request ''POST'' ''/orders'' Map.empty amount_text"
  let ?open = "(sample_options None)\<lparr>opt_fail_closed := False\<rparr>"
  have g1: "\<not> should_skip_request ?get (opt_skip_paths (sample_options None))"
    by (rule sample_not_skipped)
  have g2: "(if reads_body (sample_options None) ?get then read_and_replay_body ?e ?get
             else Inr (JObj Map.empty)) = Inr (JObj Map.empty)"
    by (simp add: reads_body_def sample_request_def)
  have g3: "\<not> truthy (header_agent_id ?get)"
    by (simp add: sample_request_def header_agent_id_def header_def py_or_def opt_str_def)
  have g4: "\<not> (opt_passport_from_body (sample_options None) \<and> is_dict (dict_get Map.empty ''passport'') \<and>
               truthy (dict_get Map.empty ''passport''))"
    by simp
  have g5: "options_init (sample_options None) = sample_options None"
    by (simp add: options_init_def sample_options_def)
  have p1: "\<not> should_skip_request ?post (opt_skip_paths ?open)"
    using sample_not_skipped [of "''POST''" Map.empty amount_text None]
    by (simp add: sample_options_def)
  have p2: "(if reads_body ?open ?post then read_and_replay_body ?e ?post
             else Inr (JObj Map.empty)) = Inr amount_doc"
    by (simp add: reads_body_def read_and_replay_body_def sample_loads_texts)
       (simp add: sample_request_def sample_options_def sample_loads_texts)
  have p3: "\<not> truthy (header_agent_id ?post)"
    by (simp add: sample_request_def header_agent_id_def header_def py_or_def opt_str_def)
  have p4: "\<not> (opt_passport_from_body ?open \<and>
               is_dict (dict_get [''agent_id'' \<mapsto> JStr ''b'', ''amount'' \<mapsto> JInt 5] ''passport'') \<and>
               truthy (dict_get [''agent_id'' \<mapsto> JStr ''b'', ''amount'' \<mapsto> JInt 5] ''passport''))"
    by simp
  have r1: "reads_body ?open ?post" "\<not> reads_body (sample_options None) ?get"
    by (simp_all add: reads_body_def sample_request_def sample_options_def)
  have fc: "opt_fail_closed (sample_options None)" "\<not> opt_fail_closed ?open"
    by (simp_all add: sample_options_def)
  from C1_missing_identity [OF g1 g2 g3 g4] C1_missing_identity [OF p1 p2 [unfolded amount_doc_def] p3 p4]
    g5 r1 fc
  show ?thesis by simp
qed

lemma sample_resolve_passport_policy:
  "resolve (sample_env service) (sample_options c)
     (sample_request ''POST'' ''/orders'' Map.empty passport_policy_text) =
   Inr (passport_policy_doc,
        JObj [''agent_id'' \<mapsto> JStr ''x''],
        JObj [''id'' \<mapsto> JStr ''custom'', ''requires_capabilities'' \<mapsto> JArr []],
        JStr ''x'')"
proof -
  have "(if reads_body (sample_options c) (sample_request ''POST'' ''/orders'' Map.empty passport_policy_text)
         then read_and_replay_body (sample_env service) (sample_request ''POST'' ''/orders'' Map.empty passport_policy_text)
         else Inr (JObj Map.empty)) = Inr passport_policy_doc"
    by (simp add: reads_body_def read_and_replay_body_def)
       (simp add: sample_request_def sample_options_def sample_loads_texts)
  from resolve_obj [OF this [unfolded passport_policy_doc_def]] show ?thesis
    by (simp add: passport_policy_doc_def get_if_truthy_def)
       (simp add: sample_options_def)
qed

lemma sample_resolve_header:
  "resolve (sample_env service) (sample_options c)
     (sample_request ''GET'' ''/orders'' [''x-agent-id'' \<mapsto> ''abc''] []) =
   Inr (JObj Map.empty, JNull, JNull, JStr ''abc'')"
proof -
  have "(if reads_body (sample_options c) (sample_request ''GET'' ''/orders'' [''x-agent-id'' \<mapsto> ''abc''] [])
         then read_and_replay_body (sample_env service) (sample_request ''GET'' ''/orders'' [''x-agent-id'' \<mapsto> ''abc''] [])
         else Inr (JObj Map.empty)) = Inr (JObj Map.empty)"
    by (simp add: reads_body_def sample_request_def)
  from resolve_obj [OF this] show ?thesis
    by (simp add: header_agent_id_def header_def py_or_def opt_str_def sample_request_def)
qed

text \<open>
  On the policy verification path with the body a JSON object, the run is the selected
  client operation's: the operation recorded is the one selected by body policy pack, then
  body passport, then resolved identity; what the run sent is what that operation sent,
  which is one request; and the run's outcome is the translation of that operation's
  result.
\<close>

lemma select_and_verify_selected:
  "select_and_verify e bp bpol eff pid ctx =
     (fst (if truthy bpol then
             verify_policy_with_policy_in_body e (if truthy bp then bp else eff) bpol
               (Some ctx) None
           else if truthy bp then verify_policy_with_passport e bp pid (Some ctx) None
           else verify_policy e eff pid (Some ctx) None JNull JNull),
      snd (if truthy bpol then
             verify_policy_with_policy_in_body e (if truthy bp then bp else eff) bpol
               (Some ctx) None
           else if truthy bp then verify_policy_with_passport e bp pid (Some ctx) None
           else verify_policy e eff pid (Some ctx) None JNull JNull),
      [if truthy bpol then
         CallVerifyPolicyWithPolicyInBody (if truthy bp then bp else eff) bpol ctx
       else if truthy bp then CallVerifyPolicyWithPassport bp pid ctx
       else CallVerifyPolicy eff pid ctx])"
  by (simp add: select_and_verify_def Let_def)

lemma policy_path_one_operation:
  fixes e opts req d bp bpol aid
  defines "ctx \<equiv> d |` (- {''passport'', ''policy''})"
      and "pid \<equiv> opt_str (opt_policy_id opts)"
      and "eff \<equiv> effective_agent_id aid bp"
  defines "r \<equiv> (if truthy bpol then
                    verify_policy_with_policy_in_body e (if truthy bp then bp else eff) bpol
                      (Some ctx) None
                  else if truthy bp then verify_policy_with_passport e bp pid (Some ctx) None
                  else verify_policy e eff pid (Some ctx) None JNull JNull)"
  defines "tr \<equiv> \<lparr>tr_calls =
                     [if truthy bpol then
                        CallVerifyPolicyWithPolicyInBody (if truthy bp then bp else eff) bpol ctx
                      else if truthy bp then CallVerifyPolicyWithPassport bp pid ctx
                      else CallVerifyPolicy eff pid ctx],
                   tr_sent = snd r,
                   tr_reads = (if reads_body opts req then 1 else 0)\<rparr>"
  assumes "\<not> should_skip_request req (opt_skip_paths opts)"
      and "resolve e opts req = Inr (JObj d, bp, bpol, aid)"
      and "truthy aid \<or> truthy bp"
      and "truthy_str (opt_policy_id opts) \<or> truthy bpol"
  shows "length (snd r) = 1"
    and "dispatch e opts req =
           handle_exceptions e
             (case fst r of
                Inl x \<Rightarrow> (Inl x, tr)
              | Inr decision \<Rightarrow>
                  (Inr (translate_decision eff (py_or pid (get_if_truthy bpol ''id''))
                          decision), tr))"
proof -
  have shape: "bp = JNull \<or> is_dict bp" using resolve_shape [OF assms(7)] by simp
  have sv: "select_and_verify e bp bpol eff pid ctx = (fst r, snd r, tr_calls tr)"
    unfolding r_def tr_def by (simp add: select_and_verify_selected)
  have tr_eq: "\<lparr>tr_calls = tr_calls tr, tr_sent = snd r,
                 tr_reads = (if reads_body opts req then 1 else 0)\<rparr> = tr"
    by (simp add: tr_def)
  from select_and_verify_sent [OF shape, of e bpol eff pid ctx]
  show "length (snd r) = 1" by (simp add: sv)
  have "policy_path e opts (JObj d) bp bpol eff (if reads_body opts req then 1 else 0) =
          (case fst r of
                Inl x \<Rightarrow> (Inl x, tr)
              | Inr decision \<Rightarrow>
                  (Inr (translate_decision eff (py_or pid (get_if_truthy bpol ''id''))
                          decision), tr))"
    unfolding policy_path_def request_context_def json.case sum.case ctx_def [symmetric]
      pid_def [symmetric] sv Let_def fst_conv snd_conv
    by (simp only: tr_eq)
  then show "dispatch e opts req =
           handle_exceptions e
             (case fst r of
                Inl x \<Rightarrow> (Inl x, tr)
              | Inr decision \<Rightarrow>
                  (Inr (translate_decision eff (py_or pid (get_if_truthy bpol ''id''))
                          decision), tr))"
    unfolding dispatch_resolved [OF assms(6-9)] eff_def [symmetric] by simp
qed

text \<open>
  C2 fails on a POST whose body is a JSON document that is no object, here the array
  \<open>[1, 2]\<close>, when a policy id is configured and neither the body's passport nor its policy
  is honoured: the request is not skipped, the body is read, the resolver finds the
  identity in the header, and the policy verification path is entered; there line 250
  raises on the array, no client operation is invoked, nothing is sent, and the answer is
  500 \<open>internal_error\<close>.
\<close>

theorem C2_array_body_no_operation:
  "\<not> should_skip_request
       (sample_request ''POST'' ''/orders'' [''x-agent-id'' \<mapsto> ''abc''] array_text)
       (opt_skip_paths ((sample_options (Some ''p1''))
          \<lparr>opt_passport_from_body := False, opt_policy_from_body := False\<rparr>))
   \<and> resolve (sample_env (answers allow_text))
       ((sample_options (Some ''p1''))
          \<lparr>opt_passport_from_body := False, opt_policy_from_body := False\<rparr>)
       (sample_request ''POST'' ''/orders'' [''x-agent-id'' \<mapsto> ''abc''] array_text)
     = Inr (JArr [JInt 1, JInt 2], JNull, JNull, JStr ''abc'')
   \<and> truthy_str (opt_policy_id ((sample_options (Some ''p1''))
        \<lparr>opt_passport_from_body := False, opt_policy_from_body := False\<rparr>))
   \<and> dispatch (sample_env (answers allow_text))
       ((sample_options (Some ''p1''))
          \<lparr>opt_passport_from_body := False, opt_policy_from_body := False\<rparr>)
       (sample_request ''POST'' ''/orders'' [''x-agent-id'' \<mapsto> ''abc''] array_text)
     = \<lparr>run_outcome =
          JSONResponse 500
            [''error'' \<mapsto> JStr ''internal_error'',
             ''message'' \<mapsto> JStr ''Internal server error''],
        run_state = no_state,
        run_trace = \<lparr>tr_calls = [], tr_sent = [], tr_reads = 1\<rparr>\<rparr>"
proof -
  let ?e = "sample_env (answers allow_text)"
  let ?o = "(sample_options (Some ''p1''))
              \<lparr>opt_passport_from_body := False, opt_policy_from_body := False\<rparr>"
  let ?r = "sample_request ''POST'' ''/orders'' [''x-agent-id'' \<mapsto> ''abc''] array_text"
  have skip: "\<not> should_skip_request ?r (opt_skip_paths ?o)"
    by (simp add: should_skip_request_def sample_request_def sample_options_def)
  have pid: "truthy_str (opt_policy_id ?o)"
    by (simp add: sample_options_def truthy_str_def)
  have rb: "reads_body ?o ?r"
    by (simp add: reads_body_def sample_request_def sample_options_def truthy_str_def)
  have body: "read_and_replay_body ?e ?r = Inr (JArr [JInt 1, JInt 2])"
    by (simp add: read_and_replay_body_def loads_or_empty_def sample_request_def)
       (simp add: sample_env_def sample_loads_def sample_texts array_doc_def)
  have opts: "\<not> opt_passport_from_body ?o" "\<not> opt_policy_from_body ?o"
    by (simp_all add: sample_options_def)
  have hd: "header_agent_id ?r = JStr ''abc''"
    by (simp add: sample_request_def header_agent_id_def header_def py_or_def opt_str_def)
  have res: "resolve ?e ?o ?r = Inr (JArr [JInt 1, JInt 2], JNull, JNull, JStr ''abc'')"
    unfolding resolve_def fst_read_stage
    using rb body opts hd by (simp add: body_field_def extract_agent_id_def)
  have run: "dispatch ?e ?o ?r =
      \<lparr>run_outcome =
          JSONResponse 500
            [''error'' \<mapsto> JStr ''internal_error'',
             ''message'' \<mapsto> JStr ''Internal server error''],
        run_state = no_state,
        run_trace = \<lparr>tr_calls = [], tr_sent = [], tr_reads = 1\<rparr>\<rparr>"
    using skip pid rb
    by (simp add: dispatch_def dispatch_try_def res Let_def policy_path_def
        request_context_def handle_exceptions_def create_error_response_def truthy_dict_def
        idle_def)
  from skip res pid run show ?thesis by (simp only: simp_thms)
qed

lemma policy_path_decided:
  assumes "fst (select_and_verify e bp bpol eff (opt_str (opt_policy_id opts))
                  (d |` (- {''passport'', ''policy''}))) = Inr decision"
  shows "run_outcome (handle_exceptions e (policy_path e opts (JObj d) bp bpol eff n)) =
           fst (translate_decision eff
                  (py_or (opt_str (opt_policy_id opts)) (get_if_truthy bpol ''id'')) decision)"
    and "run_state (handle_exceptions e (policy_path e opts (JObj d) bp bpol eff n)) =
           snd (translate_decision eff
                  (py_or (opt_str (opt_policy_id opts)) (get_if_truthy bpol ''id'')) decision)"
  using assms
  by (simp_all add: policy_path_def request_context_def Let_def handle_exceptions_def)

lemma from_api_response_deny:
  "from_api_response e deny_doc =
     Inr \<lparr>decision_id = JStr ''d1'', allow = JBool False,
          reasons = JArr [JObj [''code'' \<mapsto> JStr ''CAP_MISSING'']],
          assurance_level = JNull, expires_in = JNull, passport_digest = JNull,
          signature = JNull, created_at = JNull, meta = JNull\<rparr>"
  by (simp add: from_api_response_def deny_doc_def py_dict_def Let_def)

lemma from_api_response_allow:
  "from_api_response e allow_doc =
     Inr \<lparr>decision_id = JStr ''d1'', allow = JBool True, reasons = JArr [],
          assurance_level = JStr ''L2'', expires_in = JNull, passport_digest = JNull,
          signature = JNull, created_at = JNull, meta = JNull\<rparr>"
  by (simp add: from_api_response_def allow_doc_def py_dict_def Let_def)

lemma from_api_response_pairs:
  "from_api_response (sample_env service) pairs_doc =
     Inr \<lparr>decision_id = JStr ''d1'', allow = JBool True, reasons = JNull,
          assurance_level = JNull, expires_in = JNull, passport_digest = JNull,
          signature = JNull, created_at = JNull, meta = JNull\<rparr>"
  by (simp add: from_api_response_def pairs_doc_def py_dict_def Let_def sample_env_def
      sample_dict_of_pairs_def)

lemma sample_make_request:
  "loads_or_empty (sample_env (answers t)) t = Inr j \<Longrightarrow>
   fst (make_request (sample_env (answers t)) m p dt i) = Inr j"
  by (simp add: make_request_answers response_json_plain)

lemma sample_select_and_verify:
  assumes "loads_or_empty (sample_env (answers t)) t = Inr j" and "bp = JNull \<or> is_dict bp"
  shows "fst (select_and_verify (sample_env (answers t)) bp bpol eff pid ctx) =
           from_api_response (sample_env (answers t)) j"
proof -
  have mr: "\<And>m p dt i. make_request (sample_env (answers t)) m p dt i =
      (Inr j, snd (make_request (sample_env (answers t)) m p dt i))"
    using sample_make_request [OF assms(1)] by (metis prod.collapse)
  have pd: "\<And>m p dt i. fst (parse_decision (sample_env (answers t))
      (make_request (sample_env (answers t)) m p dt i)) = from_api_response (sample_env (answers t)) j"
    by (subst mr) (simp add: parse_decision_def)
  show ?thesis
    using assms(2)
    by (cases bp) (simp_all add: select_and_verify_def Let_def verify_policy_def
        verify_policy_with_passport_def verify_policy_with_policy_in_body_def pd)
qed

lemma sample_policy_path_passport_policy:
  "dispatch (sample_env service) (sample_options c)
     (sample_request ''POST'' ''/orders'' Map.empty passport_policy_text) =
   handle_exceptions (sample_env service)
     (policy_path (sample_env service) (sample_options c) passport_policy_doc
        (JObj [''agent_id'' \<mapsto> JStr ''x''])
        (JObj [''id'' \<mapsto> JStr ''custom'', ''requires_capabilities'' \<mapsto> JArr []])
        (JStr ''x'') 1)"
proof -
  have "dispatch (sample_env service) (sample_options c)
     (sample_request ''POST'' ''/orders'' Map.empty passport_policy_text) =
   handle_exceptions (sample_env service)
     (policy_path (sample_env service) (sample_options c) passport_policy_doc
        (JObj [''agent_id'' \<mapsto> JStr ''x''])
        (JObj [''id'' \<mapsto> JStr ''custom'', ''requires_capabilities'' \<mapsto> JArr []])
        (effective_agent_id (JStr ''x'') (JObj [''agent_id'' \<mapsto> JStr ''x'']))
        (if reads_body (sample_options c)
              (sample_request ''POST'' ''/orders'' Map.empty passport_policy_text) then 1 else 0))"
    by (rule dispatch_resolved [OF sample_not_skipped sample_resolve_passport_policy]) simp_all
  then show ?thesis
    by (simp add: effective_agent_id_def py_or_def reads_body_def sample_request_def
        sample_options_def)
qed

lemma sample_policy_path_header:
  "dispatch (sample_env service) (sample_options (Some ''p1''))
     (sample_request ''GET'' ''/orders'' [''x-agent-id'' \<mapsto> ''abc''] []) =
   handle_exceptions (sample_env service)
     (policy_path (sample_env service) (sample_options (Some ''p1'')) (JObj Map.empty)
        JNull JNull (JStr ''abc'') 0)"
proof -
  have pid: "truthy_str (opt_policy_id (sample_options (Some ''p1''))) \<or> truthy JNull"
    by (simp add: sample_options_def truthy_str_def)
  have aid: "truthy (JStr ''abc'') \<or> truthy JNull" by simp
  from dispatch_resolved [OF sample_not_skipped sample_resolve_header aid pid]
  show ?thesis
    by (simp add: effective_agent_id_def py_or_def reads_body_def sample_request_def
        get_if_truthy_def)
qed

text \<open>
  C3, as amended. On the policy verification path, when the client returns a decision
  whose \<open>allow\<close> is false, the pipeline answers 403 \<open>policy_violation\<close>; the response
  carries the agent identity, the decision's identifier, its reasons (an empty list when
  it has none), and as \<open>policy_id\<close> the configured policy id when one is configured, else
  the id of the body's policy pack. The request state is untouched.
\<close>

theorem C3_denied:
  assumes "\<not> should_skip_request req (opt_skip_paths opts)"
      and "resolve e opts req = Inr (JObj d, bp, bpol, aid)"
      and "truthy aid \<or> truthy bp"
      and "truthy_str (opt_policy_id opts) \<or> truthy bpol"
      and "fst (select_and_verify e bp bpol (effective_agent_id aid bp)
                  (opt_str (opt_policy_id opts)) (d |` (- {''passport'', ''policy''})))
             = Inr decision"
      and "\<not> truthy (allow decision)"
  shows "run_outcome (dispatch e opts req) =
           JSONResponse 403
             [''error'' \<mapsto> JStr ''policy_violation'',
              ''message'' \<mapsto> JStr ''Policy violation'',
              ''agent_id'' \<mapsto> effective_agent_id aid bp,
              ''policy_id'' \<mapsto>
                 (if truthy_str (opt_policy_id opts) then opt_str (opt_policy_id opts)
                  else get_if_truthy bpol ''id''),
              ''decision_id'' \<mapsto> decision_id decision,
              ''reasons'' \<mapsto> (if truthy (reasons decision) then reasons decision else JArr [])]
         \<and> run_state (dispatch e opts req) = no_state"
proof -
  have pid: "py_or (opt_str (opt_policy_id opts)) (get_if_truthy bpol ''id'') =
      (if truthy_str (opt_policy_id opts) then opt_str (opt_policy_id opts)
       else get_if_truthy bpol ''id'')"
    by (cases "opt_policy_id opts") (simp_all add: py_or_def opt_str_def truthy_str_def)
  show ?thesis
    unfolding dispatch_resolved [OF assms(1-4)] policy_path_decided [OF assms(5)] pid
    using assms(6)
    by (simp add: translate_decision_def decision_allow_def create_error_response_def
        truthy_dict_def decision_meta_def py_or_def)
qed

text \<open>
  C3 as stated fails when a policy id is configured and the body carries a policy pack:
  the pack \<open>custom\<close> is the one applied, and the 403 names the configured \<open>p1\<close>.
\<close>

theorem C3_reported_policy_counterexample:
  "tr_calls (run_trace (dispatch (sample_env (answers deny_text)) (sample_options (Some ''p1''))
       (sample_request ''POST'' ''/orders'' Map.empty passport_policy_text))) =
     [CallVerifyPolicyWithPolicyInBody (JObj [''agent_id'' \<mapsto> JStr ''x''])
        (JObj [''id'' \<mapsto> JStr ''custom'', ''requires_capabilities'' \<mapsto> JArr []]) Map.empty]
   \<and> response_status (run_outcome (dispatch (sample_env (answers deny_text))
       (sample_options (Some ''p1''))
       (sample_request ''POST'' ''/orders'' Map.empty passport_policy_text))) = Some 403
   \<and> response_field (run_outcome (dispatch (sample_env (answers deny_text))
       (sample_options (Some ''p1''))
       (sample_request ''POST'' ''/orders'' Map.empty passport_policy_text))) ''policy_id''
       = Some (JStr ''p1'')"
proof -
  let ?e = "sample_env (answers deny_text)"
  let ?o = "sample_options (Some ''p1'')"
  let ?bp = "JObj [''agent_id'' \<mapsto> JStr ''x'']"
  let ?bpol = "JObj [''id'' \<mapsto> JStr ''custom'', ''requires_capabilities'' \<mapsto> JArr []]"
  let ?d = "[''passport'' \<mapsto> ?bp, ''policy'' \<mapsto> ?bpol]"
  have sv: "fst (select_and_verify ?e ?bp ?bpol (JStr ''x'') (opt_str (opt_policy_id ?o))
                  (?d |` (- {''passport'', ''policy''}))) =
        Inr \<lparr>decision_id = JStr ''d1'', allow = JBool False,
          reasons = JArr [JObj [''code'' \<mapsto> JStr ''CAP_MISSING'']],
          assurance_level = JNull, expires_in = JNull, passport_digest = JNull,
          signature = JNull, created_at = JNull, meta = JNull\<rparr>"
    by (simp only: sample_select_and_verify [OF sample_loads_texts(3)] is_dict.simps
        from_api_response_deny simp_thms)
  have calls: "tr_calls (run_trace (dispatch ?e ?o
       (sample_request ''POST'' ''/orders'' Map.empty passport_policy_text))) =
     [CallVerifyPolicyWithPolicyInBody ?bp ?bpol Map.empty]"
    unfolding sample_policy_path_passport_policy passport_policy_doc_def policy_path_trace
    by (simp add: select_and_verify_calls)
  have out: "run_outcome (dispatch ?e ?o
       (sample_request ''POST'' ''/orders'' Map.empty passport_policy_text)) =
     fst (translate_decision (JStr ''x'')
            (py_or (opt_str (opt_policy_id ?o)) (get_if_truthy ?bpol ''id''))
            \<lparr>decision_id = JStr ''d1'', allow = JBool False,
          reasons = JArr [JObj [''code'' \<mapsto> JStr ''CAP_MISSING'']],
          assurance_level = JNull, expires_in = JNull, passport_digest = JNull,
          signature = JNull, created_at = JNull, meta = JNull\<rparr>)"
    unfolding sample_policy_path_passport_policy passport_policy_doc_def
    by (rule policy_path_decided(1) [OF sv])
  show ?thesis
    unfolding out calls
    by (simp add: translate_decision_def decision_allow_def create_error_response_def
        truthy_dict_def response_status_def response_field_def py_or_def opt_str_def
        sample_options_def decision_meta_def)
qed

theorem C3_denied_witness:
  "run_outcome (dispatch (sample_env (answers deny_text)) (sample_options None)
       (sample_request ''POST'' ''/orders'' Map.empty passport_policy_text)) =
     JSONResponse 403
       [''error'' \<mapsto> JStr ''policy_violation'',
        ''message'' \<mapsto> JStr ''Policy violation'',
        ''agent_id'' \<mapsto> JStr ''x'',
        ''policy_id'' \<mapsto> JStr ''custom'',
        ''decision_id'' \<mapsto> JStr ''d1'',
        ''reasons'' \<mapsto> JArr [JObj [''code'' \<mapsto> JStr ''CAP_MISSING'']]]"
proof -
  let ?e = "sample_env (answers deny_text)"
  let ?o = "sample_options None"
  let ?bp = "JObj [''agent_id'' \<mapsto> JStr ''x'']"
  let ?bpol = "JObj [''id'' \<mapsto> JStr ''custom'', ''requires_capabilities'' \<mapsto> JArr []]"
  let ?d = "[''passport'' \<mapsto> ?bp, ''policy'' \<mapsto> ?bpol]"
  let ?dec = "\<lparr>decision_id = JStr ''d1'', allow = JBool False,
          reasons = JArr [JObj [''code'' \<mapsto> JStr ''CAP_MISSING'']],
          assurance_level = JNull, expires_in = JNull, passport_digest = JNull,
          signature = JNull, created_at = JNull, meta = JNull\<rparr>"
  have h3: "truthy (JStr ''x'') \<or> truthy ?bp" by simp
  have h4: "truthy_str (opt_policy_id ?o) \<or> truthy ?bpol" by simp
  have h5: "fst (select_and_verify ?e ?bp ?bpol (effective_agent_id (JStr ''x'') ?bp)
                  (opt_str (opt_policy_id ?o)) (?d |` (- {''passport'', ''policy''}))) = Inr ?dec"
    by (simp only: sample_select_and_verify [OF sample_loads_texts(3)] is_dict.simps
        from_api_response_deny simp_thms)
  have h6: "\<not> truthy (allow ?dec)" by simp
  from C3_denied [OF sample_not_skipped sample_resolve_passport_policy [unfolded passport_policy_doc_def]
      h3 h4 h5 h6]
  show ?thesis
    by (simp add: effective_agent_id_def py_or_def get_if_truthy_def sample_options_def
        truthy_str_def)
qed

text \<open>
  C4, as amended. On the policy verification path, when the client returns a decision
  whose \<open>allow\<close> is true, the next stage is called, \<open>request.state.agent\<close> is the mapping
  with the one entry \<open>agent_id\<close> (the resolved identity) and \<open>request.state.policy_result\<close>
  is the mapping with exactly the entries \<open>decision_id\<close>, \<open>allow\<close> and \<open>reasons\<close> of the
  decision, \<open>reasons\<close> being the empty list when the decision has none.
\<close>

theorem C4_allowed:
  assumes "\<not> should_skip_request req (opt_skip_paths opts)"
      and "resolve e opts req = Inr (JObj d, bp, bpol, aid)"
      and "truthy aid \<or> truthy bp"
      and "truthy_str (opt_policy_id opts) \<or> truthy bpol"
      and "fst (select_and_verify e bp bpol (effective_agent_id aid bp)
                  (opt_str (opt_policy_id opts)) (d |` (- {''passport'', ''policy''})))
             = Inr decision"
      and "truthy (allow decision)"
  shows "run_outcome (dispatch e opts req) = CallNext
         \<and> run_state (dispatch e opts req) =
             \<lparr>st_agent = Some [''agent_id'' \<mapsto> effective_agent_id aid bp],
              st_policy_result =
                Some [''decision_id'' \<mapsto> decision_id decision,
                      ''allow'' \<mapsto> allow decision,
                      ''reasons'' \<mapsto> (if truthy (reasons decision) then reasons decision else JArr [])]\<rparr>"
  unfolding dispatch_resolved [OF assms(1-4)] policy_path_decided [OF assms(5)]
  using assms(6)
  by (simp add: translate_decision_def decision_allow_def py_or_def)


text \<open>
  C4 as stated fails on a decision that has more than the three fields: the client
  returns a decision with assurance level \<open>L2\<close>, and the request state's decision has no
  \<open>assurance_level\<close> entry.
\<close>

theorem C4_dropped_field_counterexample:
  "fst (verify_policy (sample_env (answers allow_text)) (JStr ''abc'') (JStr ''p1'')
          (Some Map.empty) None JNull JNull) =
     Inr \<lparr>decision_id = JStr ''d1'', allow = JBool True, reasons = JArr [],
          assurance_level = JStr ''L2'', expires_in = JNull, passport_digest = JNull,
          signature = JNull, created_at = JNull, meta = JNull\<rparr>
   \<and> tr_calls (run_trace (dispatch (sample_env (answers allow_text)) (sample_options (Some ''p1''))
       (sample_request ''GET'' ''/orders'' [''x-agent-id'' \<mapsto> ''abc''] []))) =
     [CallVerifyPolicy (JStr ''abc'') (JStr ''p1'') Map.empty]
   \<and> st_policy_result (run_state (dispatch (sample_env (answers allow_text))
       (sample_options (Some ''p1''))
       (sample_request ''GET'' ''/orders'' [''x-agent-id'' \<mapsto> ''abc''] []))) =
     Some [''decision_id'' \<mapsto> JStr ''d1'', ''allow'' \<mapsto> JBool True, ''reasons'' \<mapsto> JArr []]
   \<and> [''decision_id'' \<mapsto> JStr ''d1'', ''allow'' \<mapsto> JBool True, ''reasons'' \<mapsto> JArr []]
        ''assurance_level'' = None"
proof -
  let ?e = "sample_env (answers allow_text)"
  let ?o = "sample_options (Some ''p1'')"
  let ?dec = "\<lparr>decision_id = JStr ''d1'', allow = JBool True, reasons = JArr [],
          assurance_level = JStr ''L2'', expires_in = JNull, passport_digest = JNull,
          signature = JNull, created_at = JNull, meta = JNull\<rparr>"
  have sv: "fst (select_and_verify ?e JNull JNull (JStr ''abc'') (opt_str (opt_policy_id ?o))
                  (Map.empty |` (- {''passport'', ''policy''}))) = Inr ?dec"
    by (simp only: sample_select_and_verify [OF sample_loads_texts(4)]
        from_api_response_allow simp_thms)
  then have vp: "fst (verify_policy ?e (JStr ''abc'') (JStr ''p1'') (Some Map.empty) None JNull JNull)
      = Inr ?dec"
    by (simp add: select_and_verify_def Let_def opt_str_def sample_options_def)
  have calls: "tr_calls (run_trace (dispatch ?e ?o
       (sample_request ''GET'' ''/orders'' [''x-agent-id'' \<mapsto> ''abc''] []))) =
     [CallVerifyPolicy (JStr ''abc'') (JStr ''p1'') Map.empty]"
    unfolding sample_policy_path_header policy_path_trace
    by (simp add: select_and_verify_calls opt_str_def sample_options_def)
  have st: "run_state (dispatch ?e ?o
       (sample_request ''GET'' ''/orders'' [''x-agent-id'' \<mapsto> ''abc''] [])) =
     snd (translate_decision (JStr ''abc'')
            (py_or (opt_str (opt_policy_id ?o)) (get_if_truthy JNull ''id'')) ?dec)"
    unfolding sample_policy_path_header
    by (rule policy_path_decided(2) [OF sv])
  show ?thesis
    unfolding st calls vp
    by (simp add: translate_decision_def decision_allow_def py_or_def)
qed

theorem C4_allowed_witness:
  "run_outcome (dispatch (sample_env (answers allow_text)) (sample_options (Some ''p1''))
       (sample_request ''GET'' ''/orders'' [''x-agent-id'' \<mapsto> ''abc''] [])) = CallNext
   \<and> run_state (dispatch (sample_env (answers allow_text)) (sample_options (Some ''p1''))
       (sample_request ''GET'' ''/orders'' [''x-agent-id'' \<mapsto> ''abc''] [])) =
     \<lparr>st_agent = Some [''agent_id'' \<mapsto> JStr ''abc''],
      st_policy_result =
        Some [''decision_id'' \<mapsto> JStr ''d1'', ''allow'' \<mapsto> JBool True, ''reasons'' \<mapsto> JArr []]\<rparr>"
proof -
  let ?e = "sample_env (answers allow_text)"
  let ?o = "sample_options (Some ''p1'')"
  let ?dec = "\<lparr>decision_id = JStr ''d1'', allow = JBool True, reasons = JArr [],
          assurance_level = JStr ''L2'', expires_in = JNull, passport_digest = JNull,
          signature = JNull, created_at = JNull, meta = JNull\<rparr>"
  have h3: "truthy (JStr ''abc'') \<or> truthy JNull" by simp
  have h4: "truthy_str (opt_policy_id ?o) \<or> truthy JNull"
    by (simp add: sample_options_def truthy_str_def)
  have h5: "fst (select_and_verify ?e JNull JNull (effective_agent_id (JStr ''abc'') JNull)
                  (opt_str (opt_policy_id ?o)) (Map.empty |` (- {''passport'', ''policy''}))) = Inr ?dec"
    by (simp only: sample_select_and_verify [OF sample_loads_texts(4)]
        from_api_response_allow simp_thms)
  have h6: "truthy (allow ?dec)" by simp
  from C4_allowed [OF sample_not_skipped sample_resolve_header h3 h4 h5 h6]
  show ?thesis
    by (simp add: effective_agent_id_def py_or_def)
qed

lemma no_policy_path_reads: "tr_reads (snd (no_policy_path e eff bp n)) = n"
  by (simp add: no_policy_path_def idle_def Let_def split: json.splits sum.splits py_exc.splits)

lemma policy_path_reads: "tr_reads (snd (policy_path e opts bj bp bpol eff n)) = n"
  by (simp add: policy_path_def idle_def Let_def split: sum.splits)

lemma dispatch_reads:
  "tr_reads (run_trace (dispatch e opts req)) =
     (if should_skip_request req (opt_skip_paths opts) then 0
      else if reads_body opts req then 1 else 0)"
  by (simp add: dispatch_def dispatch_try_def idle_def Let_def no_policy_path_reads
      policy_path_reads split: sum.splits prod.splits)

lemma resolve_read:
  assumes "reads_body opts req"
      and "req_body req \<noteq> []"
      and "json_loads e (req_body req) = Parsed (JObj d)"
  shows "resolve e opts req =
     Inr (JObj d,
          (if opt_passport_from_body opts \<and> is_dict (dict_get d ''passport'')
           then dict_get d ''passport'' else JNull),
          (if opt_policy_from_body opts \<and> is_dict (dict_get d ''policy'')
           then dict_get d ''policy'' else JNull),
          (if opt_passport_from_body opts \<and> is_dict (dict_get d ''passport'') \<and>
              truthy (get_if_truthy (dict_get d ''passport'') ''agent_id'')
           then get_if_truthy (dict_get d ''passport'') ''agent_id'' else header_agent_id req))"
proof -
  have "(if reads_body opts req then read_and_replay_body e req else Inr (JObj Map.empty))
          = Inr (JObj d)"
    using assms by (simp add: read_and_replay_body_def loads_or_empty_def)
  then show ?thesis by (rule resolve_obj)
qed

lemma resolve_unparsed:
  assumes "req_body req = [] \<or> json_loads e (req_body req) = LoadsRaises JSONDecodeError"
  shows "resolve e opts req = Inr (JObj Map.empty, JNull, JNull, header_agent_id req)"
proof -
  have "(if reads_body opts req then read_and_replay_body e req else Inr (JObj Map.empty))
          = Inr (JObj Map.empty)"
    using assms by (auto simp: read_and_replay_body_def loads_or_empty_def)
  from resolve_obj [OF this] show ?thesis by simp
qed

lemma dispatch_body_passport:
  assumes "\<not> should_skip_request req (opt_skip_paths opts)"
      and "resolve e opts req = Inr (bj, JObj p, JNull, aid)"
      and "p \<noteq> Map.empty"
      and "opt_policy_id opts = None"
  shows "dispatch e opts req =
     \<lparr>run_outcome = CallNext,
      run_state = \<lparr>st_agent = Some ([''agent_id'' \<mapsto> dict_get p ''agent_id''] ++ p),
                   st_policy_result = None\<rparr>,
      run_trace = idle (if reads_body opts req then 1 else 0)\<rparr>"
  using assms
  by (simp add: dispatch_def dispatch_try_def Let_def no_policy_path_def truthy_str_def)

text \<open>
  C5, as amended. \<open>_read_and_replay_body\<close> yields the empty mapping for an empty body
  and for a body on which \<open>json.loads\<close> raises \<open>JSONDecodeError\<close>, and the parsed document
  otherwise. \<open>dispatch\<close> reads the body exactly once when the path is not skipped, the
  method is POST and a policy id is configured or the body's passport or policy is
  honoured; in every other case it does not read the body at all, and for a method other
  than POST the resolver works on the empty mapping. When the body is read, the resolver
  works on what was parsed: if that is a JSON object, the body, its passport and its policy
  pack (each when honoured and an object) and the identity are taken from it; if the body is
  empty or invalid, the resolver works on the empty mapping and takes the identity from
  the headers. So a POST whose body carries a non-empty passport and no policy pack, with
  the passport honoured and no policy id configured, is passed on with that passport on
  the request state, after one read.
\<close>

theorem C5_body_read:
  "(req_body req = [] \<or> json_loads e (req_body req) = LoadsRaises JSONDecodeError \<longrightarrow>
      read_and_replay_body e req = Inr (JObj Map.empty))
   \<and> (req_body req_b \<noteq> [] \<and> json_loads e_b (req_body req_b) = Parsed j_b \<longrightarrow>
        read_and_replay_body e_b req_b = Inr j_b)
   \<and> tr_reads (run_trace (dispatch e_c opts_c req_c)) =
       (if should_skip_request req_c (opt_skip_paths opts_c) then 0
        else if req_method req_c = ''POST'' \<and>
                (truthy_str (opt_policy_id opts_c) \<or> opt_passport_from_body opts_c \<or>
                 opt_policy_from_body opts_c)
        then 1 else 0)
   \<and> (req_method req_d \<noteq> ''POST'' \<longrightarrow>
        resolve e_d opts_d req_d = Inr (JObj Map.empty, JNull, JNull, header_agent_id req_d))
   \<and> (req_method req_f = ''POST'' \<and>
       (truthy_str (opt_policy_id opts_f) \<or> opt_passport_from_body opts_f \<or>
        opt_policy_from_body opts_f) \<and>
       req_body req_f \<noteq> [] \<and> json_loads e_f (req_body req_f) = Parsed (JObj d_f) \<longrightarrow>
        resolve e_f opts_f req_f =
          Inr (JObj d_f,
               (if opt_passport_from_body opts_f \<and> is_dict (dict_get d_f ''passport'')
                then dict_get d_f ''passport'' else JNull),
               (if opt_policy_from_body opts_f \<and> is_dict (dict_get d_f ''policy'')
                then dict_get d_f ''policy'' else JNull),
               (if opt_passport_from_body opts_f \<and> is_dict (dict_get d_f ''passport'') \<and>
                   truthy (get_if_truthy (dict_get d_f ''passport'') ''agent_id'')
                then get_if_truthy (dict_get d_f ''passport'') ''agent_id''
                else header_agent_id req_f)))
   \<and> (req_body req_g = [] \<or> json_loads e_g (req_body req_g) = LoadsRaises JSONDecodeError \<longrightarrow>
        resolve e_g opts_g req_g = Inr (JObj Map.empty, JNull, JNull, header_agent_id req_g))
   \<and> (\<not> should_skip_request req_h (opt_skip_paths opts_h) \<and> req_method req_h = ''POST'' \<and>
       opt_passport_from_body opts_h \<and> opt_policy_id opts_h = None \<and>
       req_body req_h \<noteq> [] \<and> json_loads e_h (req_body req_h) = Parsed (JObj d_h) \<and>
       dict_get d_h ''passport'' = JObj p_h \<and> p_h \<noteq> Map.empty \<and>
       dict_get d_h ''policy'' = JNull \<longrightarrow>
        dispatch e_h opts_h req_h =
          \<lparr>run_outcome = CallNext,
           run_state = \<lparr>st_agent = Some ([''agent_id'' \<mapsto> dict_get p_h ''agent_id''] ++ p_h),
                        st_policy_result = None\<rparr>,
           run_trace = idle 1\<rparr>)"
proof (intro conjI impI)
  assume "req_body req = [] \<or> json_loads e (req_body req) = LoadsRaises JSONDecodeError"
  then show "read_and_replay_body e req = Inr (JObj Map.empty)"
    by (auto simp: read_and_replay_body_def loads_or_empty_def)
next
  assume "req_body req_b \<noteq> [] \<and> json_loads e_b (req_body req_b) = Parsed j_b"
  then show "read_and_replay_body e_b req_b = Inr j_b"
    by (simp add: read_and_replay_body_def loads_or_empty_def)
next
  show "tr_reads (run_trace (dispatch e_c opts_c req_c)) =
       (if should_skip_request req_c (opt_skip_paths opts_c) then 0
        else if req_method req_c = ''POST'' \<and>
                (truthy_str (opt_policy_id opts_c) \<or> opt_passport_from_body opts_c \<or>
                 opt_policy_from_body opts_c)
        then 1 else 0)"
    by (simp add: dispatch_reads reads_body_def)
next
  assume "req_method req_d \<noteq> ''POST''"
  then have "(if reads_body opts_d req_d then read_and_replay_body e_d req_d
              else Inr (JObj Map.empty)) = Inr (JObj Map.empty)"
    by (simp add: reads_body_def)
  from resolve_obj [OF this]
  show "resolve e_d opts_d req_d = Inr (JObj Map.empty, JNull, JNull, header_agent_id req_d)"
    by simp
next
  assume a: "req_method req_f = ''POST'' \<and>
       (truthy_str (opt_policy_id opts_f) \<or> opt_passport_from_body opts_f \<or>
        opt_policy_from_body opts_f) \<and>
       req_body req_f \<noteq> [] \<and> json_loads e_f (req_body req_f) = Parsed (JObj d_f)"
  then have "reads_body opts_f req_f" by (simp add: reads_body_def)
  with a show "resolve e_f opts_f req_f =
          Inr (JObj d_f,
               (if opt_passport_from_body opts_f \<and> is_dict (dict_get d_f ''passport'')
                then dict_get d_f ''passport'' else JNull),
               (if opt_policy_from_body opts_f \<and> is_dict (dict_get d_f ''policy'')
                then dict_get d_f ''policy'' else JNull),
               (if opt_passport_from_body opts_f \<and> is_dict (dict_get d_f ''passport'') \<and>
                   truthy (get_if_truthy (dict_get d_f ''passport'') ''agent_id'')
                then get_if_truthy (dict_get d_f ''passport'') ''agent_id''
                else header_agent_id req_f))"
    by (intro resolve_read) simp_all
next
  assume "req_body req_g = [] \<or> json_loads e_g (req_body req_g) = LoadsRaises JSONDecodeError"
  then show "resolve e_g opts_g req_g = Inr (JObj Map.empty, JNull, JNull, header_agent_id req_g)"
    by (rule resolve_unparsed)
next
  assume a: "\<not> should_skip_request req_h (opt_skip_paths opts_h) \<and> req_method req_h = ''POST'' \<and>
       opt_passport_from_body opts_h \<and> opt_policy_id opts_h = None \<and>
       req_body req_h \<noteq> [] \<and> json_loads e_h (req_body req_h) = Parsed (JObj d_h) \<and>
       dict_get d_h ''passport'' = JObj p_h \<and> p_h \<noteq> Map.empty \<and>
       dict_get d_h ''policy'' = JNull"
  then have r: "reads_body opts_h req_h" by (simp add: reads_body_def)
  from a have "resolve e_h opts_h req_h =
      Inr (JObj d_h, JObj p_h, JNull,
           (if truthy (get_if_truthy (JObj p_h) ''agent_id'')
            then get_if_truthy (JObj p_h) ''agent_id'' else header_agent_id req_h))"
    using resolve_read [OF r, of e_h d_h] by simp
  from dispatch_body_passport [OF _ this] a r
  show "dispatch e_h opts_h req_h =
          \<lparr>run_outcome = CallNext,
           run_state = \<lparr>st_agent = Some ([''agent_id'' \<mapsto> dict_get p_h ''agent_id''] ++ p_h),
                        st_policy_result = None\<rparr>,
           run_trace = idle 1\<rparr>"
    by simp
qed

text \<open>
  C5 as stated fails for a state-changing method other than POST: the body of a PUT is
  not read, so its passport is not seen and the request is answered 401.
\<close>

theorem C5_put_counterexample:
  "req_method (sample_request ''PUT'' ''/orders'' Map.empty passport_policy_text) = ''PUT''
   \<and> req_body (sample_request ''PUT'' ''/orders'' Map.empty passport_policy_text) = passport_policy_text
   \<and> tr_reads (run_trace (dispatch (sample_env (answers allow_text)) (sample_options (Some ''p1''))
        (sample_request ''PUT'' ''/orders'' Map.empty passport_policy_text))) = 0
   \<and> response_status (run_outcome (dispatch (sample_env (answers allow_text)) (sample_options (Some ''p1''))
        (sample_request ''PUT'' ''/orders'' Map.empty passport_policy_text))) = Some 401"
proof -
  let ?e = "sample_env (answers allow_text)"
  let ?o = "sample_options (Some ''p1'')"
  let ?r = "sample_request ''PUT'' ''/orders'' Map.empty passport_policy_text"
  have nr: "\<not> reads_body ?o ?r"
    by (simp add: reads_body_def sample_request_def)
  then have "(if reads_body ?o ?r then read_and_replay_body ?e ?r else Inr (JObj Map.empty))
      = Inr (JObj Map.empty)"
    by simp
  from resolve_obj [OF this]
  have res: "resolve ?e ?o ?r = Inr (JObj Map.empty, JNull, JNull, JNull)"
    by (simp add: header_agent_id_def header_def py_or_def opt_str_def sample_request_def)
  have reads: "tr_reads (run_trace (dispatch ?e ?o ?r)) = 0"
    using nr by (simp add: dispatch_reads sample_not_skipped)
  have out: "response_status (run_outcome (dispatch ?e ?o ?r)) = Some 401"
    using sample_not_skipped [of "''PUT''" Map.empty passport_policy_text "Some ''p1''"]
    by (simp add: dispatch_def dispatch_try_def res Let_def create_error_response_def
        truthy_dict_def response_status_def)
       (simp add: sample_options_def)
  show ?thesis using reads out by (simp add: sample_request_def)
qed

theorem C5_body_read_witness:
  "read_and_replay_body (sample_env (answers allow_text))
     (sample_request ''POST'' ''/orders'' Map.empty []) = Inr (JObj Map.empty)
   \<and> read_and_replay_body (sample_env (answers allow_text))
     (sample_request ''POST'' ''/orders'' Map.empty ''{not json'') = Inr (JObj Map.empty)
   \<and> read_and_replay_body (sample_env (answers allow_text))
     (sample_request ''POST'' ''/orders'' Map.empty passport_policy_text) = Inr passport_policy_doc
   \<and> tr_reads (run_trace (dispatch (sample_env (answers allow_text)) (sample_options (Some ''p1''))
        (sample_request ''POST'' ''/orders'' Map.empty passport_policy_text))) = 1
   \<and> resolve (sample_env (answers allow_text)) (sample_options (Some ''p1''))
        (sample_request ''PUT'' ''/orders'' Map.empty passport_policy_text) =
      Inr (JObj Map.empty, JNull, JNull, JNull)
   \<and> resolve (sample_env (answers allow_text)) (sample_options (Some ''p1''))
        (sample_request ''POST'' ''/orders'' Map.empty passport_policy_text) =
      Inr (passport_policy_doc,
           JObj [''agent_id'' \<mapsto> JStr ''x''],
           JObj [''id'' \<mapsto> JStr ''custom'', ''requires_capabilities'' \<mapsto> JArr []],
           JStr ''x'')
   \<and> resolve (sample_env (answers allow_text)) (sample_options (Some ''p1''))
        (sample_request ''POST'' ''/orders'' [''x-agent-id'' \<mapsto> ''abc''] ''{not json'') =
      Inr (JObj Map.empty, JNull, JNull, JStr ''abc'')
   \<and> dispatch (sample_env (answers allow_text)) (sample_options None)
        (sample_request ''POST'' ''/orders'' Map.empty passport_text) =
      \<lparr>run_outcome = CallNext,
       run_state = \<lparr>st_agent = Some [''agent_id'' \<mapsto> JStr ''x'', ''owner'' \<mapsto> JStr ''acme''],
                    st_policy_result = None\<rparr>,
       run_trace = idle 1\<rparr>"
proof -
  let ?e = "sample_env (answers allow_text)"
  let ?o = "sample_options (Some ''p1'')"
  let ?n = "sample_options None"
  let ?empty = "sample_request ''POST'' ''/orders'' Map.empty []"
  let ?bad = "sample_request ''POST'' ''/orders'' Map.empty ''{not json''"
  let ?badh = "sample_request ''POST'' ''/orders'' [''x-agent-id'' \<mapsto> ''abc''] ''{not json''"
  let ?post = "sample_request ''POST'' ''/orders'' Map.empty passport_policy_text"
  let ?put = "sample_request ''PUT'' ''/orders'' Map.empty passport_policy_text"
  let ?pass = "sample_request ''POST'' ''/orders'' Map.empty passport_text"
  let ?bp = "JObj [''agent_id'' \<mapsto> JStr ''x'']"
  let ?bpol = "JObj [''id'' \<mapsto> JStr ''custom'', ''requires_capabilities'' \<mapsto> JArr []]"
  let ?d = "[''passport'' \<mapsto> ?bp, ''policy'' \<mapsto> ?bpol]"
  let ?p = "[''agent_id'' \<mapsto> JStr ''x'', ''owner'' \<mapsto> JStr ''acme'']"
  have h1: "req_body ?empty = [] \<or> json_loads ?e (req_body ?empty) = LoadsRaises JSONDecodeError"
    by (simp add: sample_request_def)
  have h1': "req_body ?bad = [] \<or> json_loads ?e (req_body ?bad) = LoadsRaises JSONDecodeError"
    by (simp add: sample_request_def sample_env_def sample_loads_def sample_texts)
  have h2: "req_body ?post \<noteq> [] \<and> json_loads ?e (req_body ?post) = Parsed passport_policy_doc"
    by (simp add: sample_request_def sample_env_def sample_loads_def passport_policy_text_def)
  have h4: "req_method ?put \<noteq> ''POST''"
    by (simp add: sample_request_def)
  have c: "\<not> should_skip_request ?post (opt_skip_paths ?o)" by (rule sample_not_skipped)
  have m: "req_method ?post = ''POST''" "truthy_str (opt_policy_id ?o)"
    "header_agent_id ?put = JNull"
    by (simp_all add: sample_request_def sample_options_def truthy_str_def
        header_agent_id_def header_def py_or_def opt_str_def)
  have h5: "req_method ?post = ''POST'' \<and>
       (truthy_str (opt_policy_id ?o) \<or> opt_passport_from_body ?o \<or> opt_policy_from_body ?o) \<and>
       req_body ?post \<noteq> [] \<and> json_loads ?e (req_body ?post) = Parsed (JObj ?d)"
    using h2 m by (simp add: passport_policy_doc_def)
  have o5: "opt_passport_from_body ?o" "opt_policy_from_body ?o"
    by (simp_all add: sample_options_def)
  have h6: "req_body ?badh = [] \<or> json_loads ?e (req_body ?badh) = LoadsRaises JSONDecodeError"
    by (simp add: sample_request_def sample_env_def sample_loads_def sample_texts)
  have g6: "header_agent_id ?badh = JStr ''abc''"
    by (simp add: sample_request_def header_agent_id_def header_def py_or_def opt_str_def)
  have h7: "\<not> should_skip_request ?pass (opt_skip_paths ?n) \<and> req_method ?pass = ''POST'' \<and>
       opt_passport_from_body ?n \<and> opt_policy_id ?n = None \<and>
       req_body ?pass \<noteq> [] \<and>
       json_loads ?e (req_body ?pass) = Parsed (JObj [''passport'' \<mapsto> JObj ?p]) \<and>
       dict_get [''passport'' \<mapsto> JObj ?p] ''passport'' = JObj ?p \<and> ?p \<noteq> Map.empty \<and>
       dict_get [''passport'' \<mapsto> JObj ?p] ''policy'' = JNull"
    using sample_not_skipped [of "''POST''" Map.empty passport_text None]
    by (simp add: sample_request_def sample_options_def)
       (simp add: sample_env_def sample_loads_def sample_texts passport_doc_def)
  note inst = C5_body_read
    [where req = ?empty and e = ?e and req_b = ?post and e_b = ?e and j_b = passport_policy_doc
       and e_c = ?e and opts_c = ?o and req_c = ?post
       and req_d = ?put and e_d = ?e and opts_d = ?o
       and req_f = ?post and e_f = ?e and opts_f = ?o and d_f = ?d
       and req_g = ?badh and e_g = ?e and opts_g = ?o
       and req_h = ?pass and e_h = ?e and opts_h = ?n
       and d_h = "[''passport'' \<mapsto> JObj ?p]" and p_h = ?p]
  note inst_bad = C5_body_read
    [where req = ?bad and e = ?e and req_b = ?post and e_b = ?e and j_b = passport_policy_doc
       and e_c = ?e and opts_c = ?o and req_c = ?post
       and req_d = ?put and e_d = ?e and opts_d = ?o
       and req_f = ?post and e_f = ?e and opts_f = ?o and d_f = ?d
       and req_g = ?badh and e_g = ?e and opts_g = ?o
       and req_h = ?pass and e_h = ?e and opts_h = ?n
       and d_h = "[''passport'' \<mapsto> JObj ?p]" and p_h = ?p]
  have first: "read_and_replay_body ?e ?empty = Inr (JObj Map.empty)"
    using inst h1 by simp
  have second: "read_and_replay_body ?e ?bad = Inr (JObj Map.empty)"
    using inst_bad h1' by simp
  have third: "read_and_replay_body ?e ?post = Inr passport_policy_doc"
    using inst h2 by simp
  have fourth: "tr_reads (run_trace (dispatch ?e ?o ?post)) = 1"
    using inst c m by simp
  have fifth: "resolve ?e ?o ?put = Inr (JObj Map.empty, JNull, JNull, JNull)"
    using inst h4 m by simp
  have sixth: "resolve ?e ?o ?post = Inr (passport_policy_doc, ?bp, ?bpol, JStr ''x'')"
    using inst h5 o5 by (simp add: passport_policy_doc_def get_if_truthy_def)
  have seventh: "resolve ?e ?o ?badh = Inr (JObj Map.empty, JNull, JNull, JStr ''abc'')"
    using inst h6 g6 by simp
  have eighth: "dispatch ?e ?n ?pass =
      \<lparr>run_outcome = CallNext,
       run_state = \<lparr>st_agent = Some ?p, st_policy_result = None\<rparr>,
       run_trace = idle 1\<rparr>"
    using inst h7 by simp
  from first second third fourth fifth sixth seventh eighth show ?thesis
    by (simp only: simp_thms)
qed

lemma make_request_all_timeout:
  "list_all (\<lambda>rq. session_request e rq = RaisesTimeoutError) (snd (make_request e m p dt i))
     \<Longrightarrow> fst (make_request e m p dt i) = Inl (AportError timeout_error)"
  by (simp add: make_request_def Let_def)

lemma make_request_all_refused:
  "list_all (\<lambda>rq. session_request e rq = RaisesClientError msg) (snd (make_request e m p dt i))
     \<Longrightarrow> fst (make_request e m p dt i) = Inl (AportError (network_error msg))"
  by (simp add: make_request_def Let_def)

lemma parse_decision_failed:
  "fst r = Inl x \<Longrightarrow> fst (parse_decision e r) = Inl x"
  by (cases r) (simp add: parse_decision_def)

lemma select_and_verify_failed:
  assumes "bp = JNull \<or> is_dict bp"
      and "\<And>m p dt i. list_all P (snd (make_request e m p dt i))
             \<Longrightarrow> fst (make_request e m p dt i) = Inl x"
      and "list_all P (fst (snd (select_and_verify e bp bpol eff pid ctx)))"
  shows "fst (select_and_verify e bp bpol eff pid ctx) = Inl x"
  using assms(1,3)
  by (cases bp)
     (auto simp: select_and_verify_def Let_def verify_policy_def verify_policy_with_passport_def
        verify_policy_with_policy_in_body_def
        intro!: parse_decision_failed assms(2) split: if_splits)

lemma policy_path_failed:
  assumes "fst (select_and_verify e bp bpol eff (opt_str (opt_policy_id opts))
                  (d |` (- {''passport'', ''policy''}))) = Inl (AportError err)"
  shows "run_outcome (handle_exceptions e (policy_path e opts (JObj d) bp bpol eff n)) =
           JSONResponse (err_status err)
             [''error'' \<mapsto> JStr ''api_error'', ''message'' \<mapsto> JStr (aport_message e err),
              ''reasons'' \<mapsto> err_reasons err]"
  using assms
  by (simp add: policy_path_def request_context_def Let_def)

text \<open>
  The path without a policy, when the request for the passport view meets a failure of
  the transport: the handler of lines 242 to 248 answers.
\<close>

lemma no_policy_failed:
  assumes "\<not> should_skip_request req (opt_skip_paths opts)"
      and "resolve e opts req = Inr (bj, bp, bpol, aid)"
      and "truthy aid" and "\<not> truthy bp"
      and "\<not> truthy_str (opt_policy_id opts)" and "\<not> truthy bpol"
      and "fst (make_request e ''GET'' (PassportVerifyView aid) None None) = Inl (AportError err)"
  shows "dispatch e opts req =
     \<lparr>run_outcome =
        JSONResponse (err_status err)
          [''error'' \<mapsto> JStr ''agent_verification_failed'',
           ''message'' \<mapsto> JStr (aport_message e err), ''agent_id'' \<mapsto> aid],
      run_state = no_state,
      run_trace =
        \<lparr>tr_calls = [CallGetPassportView aid],
         tr_sent = [\<lparr>rq_method = ''GET'', rq_endpoint = PassportVerifyView aid,
                     rq_headers = get_headers e None, rq_json = None\<rparr>],
         tr_reads = (if reads_body opts req then 1 else 0)\<rparr>\<rparr>"
proof -
  have eff: "effective_agent_id aid bp = aid"
    using assms(3) by (simp add: effective_agent_id_def py_or_def)
  have "dispatch_try e opts req =
      no_policy_path e aid bp (if reads_body opts req then 1 else 0)"
    using assms(1-6) by (simp add: dispatch_try_def Let_def eff)
  then show ?thesis
    using assms(4,7)
    by (simp add: dispatch_def no_policy_path_def get_passport_view_def Let_def
        sent_make_request create_error_response_def truthy_dict_def)
qed

text \<open>
  C6, as amended. At the client, a connection error of the session becomes an
  \<open>AportError\<close> whose reasons are the one record with code \<open>NETWORK_ERROR\<close> and which has
  no decision identifier; a timeout becomes an \<open>AportError\<close> with status 408, the one
  reason \<open>TIMEOUT\<close> and no decision identifier. In the pipeline, on the policy verification
  path, a request that times out is answered 408 \<open>api_error\<close> with the reason \<open>TIMEOUT\<close>,
  and one that meets a connection error is answered \<open>api_error\<close> with the reason
  \<open>NETWORK_ERROR\<close>, each after one request. On the path without a policy, where the one
  request is for the passport view, a timeout is answered 408
  \<open>agent_verification_failed\<close> and a connection error \<open>agent_verification_failed\<close>, with
  the agent's identity and without reasons. In all cases the result is a response, not
  an exception, and the request state is untouched.
\<close>

theorem C6_transport_failures:
  "(session_request e \<lparr>rq_method = m, rq_endpoint = p, rq_headers = get_headers e i, rq_json = dt\<rparr>
      = RaisesClientError msg \<longrightarrow>
      (\<exists>err. fst (make_request e m p dt i) = Inl (AportError err) \<and>
         err_reasons err = JArr [reason ''NETWORK_ERROR'' msg] \<and> err_decision_id err = JNull))
   \<and> (session_request e_b \<lparr>rq_method = m_b, rq_endpoint = p_b, rq_headers = get_headers e_b i_b,
                           rq_json = dt_b\<rparr>
      = RaisesTimeoutError \<longrightarrow>
      (\<exists>err. fst (make_request e_b m_b p_b dt_b i_b) = Inl (AportError err) \<and>
         err_status err = 408 \<and>
         err_reasons err = JArr [reason ''TIMEOUT'' ''Request timeout''] \<and>
         err_decision_id err = JNull))
   \<and> (\<not> should_skip_request req_c (opt_skip_paths opts_c) \<and>
       resolve e_c opts_c req_c = Inr (JObj d_c, bp_c, bpol_c, aid_c) \<and>
       (truthy aid_c \<or> truthy bp_c) \<and>
       (truthy_str (opt_policy_id opts_c) \<or> truthy bpol_c) \<and>
       list_all (\<lambda>rq. session_request e_c rq = RaisesTimeoutError)
         (tr_sent (run_trace (dispatch e_c opts_c req_c))) \<longrightarrow>
       run_outcome (dispatch e_c opts_c req_c) =
         JSONResponse 408
           [''error'' \<mapsto> JStr ''api_error'',
            ''message'' \<mapsto> JStr (aport_message e_c timeout_error),
            ''reasons'' \<mapsto> JArr [reason ''TIMEOUT'' ''Request timeout'']] \<and>
       run_state (dispatch e_c opts_c req_c) = no_state \<and>
       length (tr_sent (run_trace (dispatch e_c opts_c req_c))) = 1)
   \<and> (\<not> should_skip_request req_d (opt_skip_paths opts_d) \<and>
       resolve e_d opts_d req_d = Inr (JObj d_d, bp_d, bpol_d, aid_d) \<and>
       (truthy aid_d \<or> truthy bp_d) \<and>
       (truthy_str (opt_policy_id opts_d) \<or> truthy bpol_d) \<and>
       list_all (\<lambda>rq. session_request e_d rq = RaisesClientError msg_d)
         (tr_sent (run_trace (dispatch e_d opts_d req_d))) \<longrightarrow>
       response_field (run_outcome (dispatch e_d opts_d req_d)) ''error'' = Some (JStr ''api_error'') \<and>
       response_field (run_outcome (dispatch e_d opts_d req_d)) ''reasons'' =
         Some (JArr [reason ''NETWORK_ERROR'' msg_d]) \<and>
       run_state (dispatch e_d opts_d req_d) = no_state \<and>
       length (tr_sent (run_trace (dispatch e_d opts_d req_d))) = 1)
   \<and> (\<not> should_skip_request req_f (opt_skip_paths opts_f) \<and>
       resolve e_f opts_f req_f = Inr (bj_f, bp_f, bpol_f, aid_f) \<and>
       truthy aid_f \<and> \<not> truthy bp_f \<and>
       \<not> truthy_str (opt_policy_id opts_f) \<and> \<not> truthy bpol_f \<and>
       session_request e_f
         \<lparr>rq_method = ''GET'', rq_endpoint = PassportVerifyView aid_f,
          rq_headers = get_headers e_f None, rq_json = None\<rparr> = RaisesTimeoutError \<longrightarrow>
       dispatch e_f opts_f req_f =
         \<lparr>run_outcome =
            JSONResponse 408
              [''error'' \<mapsto> JStr ''agent_verification_failed'',
               ''message'' \<mapsto> JStr (aport_message e_f timeout_error),
               ''agent_id'' \<mapsto> aid_f],
          run_state = no_state,
          run_trace =
            \<lparr>tr_calls = [CallGetPassportView aid_f],
             tr_sent = [\<lparr>rq_method = ''GET'', rq_endpoint = PassportVerifyView aid_f,
                         rq_headers = get_headers e_f None, rq_json = None\<rparr>],
             tr_reads = (if reads_body opts_f req_f then 1 else 0)\<rparr>\<rparr>)
   \<and> (\<not> should_skip_request req_g (opt_skip_paths opts_g) \<and>
       resolve e_g opts_g req_g = Inr (bj_g, bp_g, bpol_g, aid_g) \<and>
       truthy aid_g \<and> \<not> truthy bp_g \<and>
       \<not> truthy_str (opt_policy_id opts_g) \<and> \<not> truthy bpol_g \<and>
       session_request e_g
         \<lparr>rq_method = ''GET'', rq_endpoint = PassportVerifyView aid_g,
          rq_headers = get_headers e_g None, rq_json = None\<rparr> = RaisesClientError msg_g \<longrightarrow>
       response_field (run_outcome (dispatch e_g opts_g req_g)) ''error'' =
         Some (JStr ''agent_verification_failed'') \<and>
       response_field (run_outcome (dispatch e_g opts_g req_g)) ''agent_id'' = Some aid_g \<and>
       response_field (run_outcome (dispatch e_g opts_g req_g)) ''reasons'' = None \<and>
       run_state (dispatch e_g opts_g req_g) = no_state \<and>
       run_trace (dispatch e_g opts_g req_g) =
         \<lparr>tr_calls = [CallGetPassportView aid_g],
          tr_sent = [\<lparr>rq_method = ''GET'', rq_endpoint = PassportVerifyView aid_g,
                      rq_headers = get_headers e_g None, rq_json = None\<rparr>],
          tr_reads = (if reads_body opts_g req_g then 1 else 0)\<rparr>)"
proof (intro conjI impI)
  assume "session_request e \<lparr>rq_method = m, rq_endpoint = p, rq_headers = get_headers e i, rq_json = dt\<rparr>
      = RaisesClientError msg"
  then have "fst (make_request e m p dt i) = Inl (AportError (network_error msg))"
    by (simp add: make_request_def Let_def)
  then show "\<exists>err. fst (make_request e m p dt i) = Inl (AportError err) \<and>
         err_reasons err = JArr [reason ''NETWORK_ERROR'' msg] \<and> err_decision_id err = JNull"
    by (simp add: network_error_def)
next
  assume "session_request e_b \<lparr>rq_method = m_b, rq_endpoint = p_b, rq_headers = get_headers e_b i_b,
                           rq_json = dt_b\<rparr> = RaisesTimeoutError"
  then have "fst (make_request e_b m_b p_b dt_b i_b) = Inl (AportError timeout_error)"
    by (simp add: make_request_def Let_def)
  then show "\<exists>err. fst (make_request e_b m_b p_b dt_b i_b) = Inl (AportError err) \<and>
         err_status err = 408 \<and>
         err_reasons err = JArr [reason ''TIMEOUT'' ''Request timeout''] \<and>
         err_decision_id err = JNull"
    by (simp add: timeout_error_def)
next
  assume a: "\<not> should_skip_request req_c (opt_skip_paths opts_c) \<and>
       resolve e_c opts_c req_c = Inr (JObj d_c, bp_c, bpol_c, aid_c) \<and>
       (truthy aid_c \<or> truthy bp_c) \<and>
       (truthy_str (opt_policy_id opts_c) \<or> truthy bpol_c) \<and>
       list_all (\<lambda>rq. session_request e_c rq = RaisesTimeoutError)
         (tr_sent (run_trace (dispatch e_c opts_c req_c)))"
  then have d: "dispatch e_c opts_c req_c =
     handle_exceptions e_c (policy_path e_c opts_c (JObj d_c) bp_c bpol_c
       (effective_agent_id aid_c bp_c) (if reads_body opts_c req_c then 1 else 0))"
    by (intro dispatch_resolved) simp_all
  from a have shape: "bp_c = JNull \<or> is_dict bp_c" using resolve_shape by blast
  from a have "list_all (\<lambda>rq. session_request e_c rq = RaisesTimeoutError)
      (fst (snd (select_and_verify e_c bp_c bpol_c (effective_agent_id aid_c bp_c)
         (opt_str (opt_policy_id opts_c)) (d_c |` (- {''passport'', ''policy''})))))"
    by (simp add: d policy_path_trace [unfolded run_trace_handle_exceptions])
  from select_and_verify_failed [OF shape make_request_all_timeout this]
  have f: "fst (select_and_verify e_c bp_c bpol_c (effective_agent_id aid_c bp_c)
         (opt_str (opt_policy_id opts_c)) (d_c |` (- {''passport'', ''policy''})))
       = Inl (AportError timeout_error)" .
  show "run_outcome (dispatch e_c opts_c req_c) =
         JSONResponse 408
           [''error'' \<mapsto> JStr ''api_error'',
            ''message'' \<mapsto> JStr (aport_message e_c timeout_error),
            ''reasons'' \<mapsto> JArr [reason ''TIMEOUT'' ''Request timeout'']]"
    unfolding d using f by (simp add: policy_path_failed) (simp add: timeout_error_def)
  show "run_state (dispatch e_c opts_c req_c) = no_state"
    unfolding d using f by (simp add: policy_path_def request_context_def Let_def)
  show "length (tr_sent (run_trace (dispatch e_c opts_c req_c))) = 1"
    unfolding d policy_path_trace using select_and_verify_sent [OF shape] by simp
next
  assume a: "\<not> should_skip_request req_d (opt_skip_paths opts_d) \<and>
       resolve e_d opts_d req_d = Inr (JObj d_d, bp_d, bpol_d, aid_d) \<and>
       (truthy aid_d \<or> truthy bp_d) \<and>
       (truthy_str (opt_policy_id opts_d) \<or> truthy bpol_d) \<and>
       list_all (\<lambda>rq. session_request e_d rq = RaisesClientError msg_d)
         (tr_sent (run_trace (dispatch e_d opts_d req_d)))"
  then have d: "dispatch e_d opts_d req_d =
     handle_exceptions e_d (policy_path e_d opts_d (JObj d_d) bp_d bpol_d
       (effective_agent_id aid_d bp_d) (if reads_body opts_d req_d then 1 else 0))"
    by (intro dispatch_resolved) simp_all
  from a have shape: "bp_d = JNull \<or> is_dict bp_d" using resolve_shape by blast
  from a have "list_all (\<lambda>rq. session_request e_d rq = RaisesClientError msg_d)
      (fst (snd (select_and_verify e_d bp_d bpol_d (effective_agent_id aid_d bp_d)
         (opt_str (opt_policy_id opts_d)) (d_d |` (- {''passport'', ''policy''})))))"
    by (simp add: d policy_path_trace [unfolded run_trace_handle_exceptions])
  from select_and_verify_failed [OF shape make_request_all_refused this]
  have f: "fst (select_and_verify e_d bp_d bpol_d (effective_agent_id aid_d bp_d)
         (opt_str (opt_policy_id opts_d)) (d_d |` (- {''passport'', ''policy''})))
       = Inl (AportError (network_error msg_d))" .
  then have out: "run_outcome (dispatch e_d opts_d req_d) =
      JSONResponse (err_status (network_error msg_d))
        [''error'' \<mapsto> JStr ''api_error'',
         ''message'' \<mapsto> JStr (aport_message e_d (network_error msg_d)),
         ''reasons'' \<mapsto> err_reasons (network_error msg_d)]"
    unfolding d by (simp add: policy_path_failed)
  show "response_field (run_outcome (dispatch e_d opts_d req_d)) ''error'' = Some (JStr ''api_error'')"
    and "response_field (run_outcome (dispatch e_d opts_d req_d)) ''reasons'' =
         Some (JArr [reason ''NETWORK_ERROR'' msg_d])"
    by (simp_all add: out response_field_def network_error_def)
  show "run_state (dispatch e_d opts_d req_d) = no_state"
    unfolding d using f by (simp add: policy_path_def request_context_def Let_def)
  show "length (tr_sent (run_trace (dispatch e_d opts_d req_d))) = 1"
    unfolding d policy_path_trace using select_and_verify_sent [OF shape] by simp
next
  assume a: "\<not> should_skip_request req_f (opt_skip_paths opts_f) \<and>
       resolve e_f opts_f req_f = Inr (bj_f, bp_f, bpol_f, aid_f) \<and>
       truthy aid_f \<and> \<not> truthy bp_f \<and>
       \<not> truthy_str (opt_policy_id opts_f) \<and> \<not> truthy bpol_f \<and>
       session_request e_f
         \<lparr>rq_method = ''GET'', rq_endpoint = PassportVerifyView aid_f,
          rq_headers = get_headers e_f None, rq_json = None\<rparr> = RaisesTimeoutError"
  then have "fst (make_request e_f ''GET'' (PassportVerifyView aid_f) None None)
      = Inl (AportError timeout_error)"
    by (simp add: make_request_def Let_def)
  with a have "dispatch e_f opts_f req_f =
     \<lparr>run_outcome =
        JSONResponse (err_status timeout_error)
          [''error'' \<mapsto> JStr ''agent_verification_failed'',
           ''message'' \<mapsto> JStr (aport_message e_f timeout_error), ''agent_id'' \<mapsto> aid_f],
      run_state = no_state,
      run_trace =
        \<lparr>tr_calls = [CallGetPassportView aid_f],
         tr_sent = [\<lparr>rq_method = ''GET'', rq_endpoint = PassportVerifyView aid_f,
                     rq_headers = get_headers e_f None, rq_json = None\<rparr>],
         tr_reads = (if reads_body opts_f req_f then 1 else 0)\<rparr>\<rparr>"
    by (intro no_policy_failed [where bj = bj_f and bp = bp_f and bpol = bpol_f]) simp_all
  then show "dispatch e_f opts_f req_f =
         \<lparr>run_outcome =
            JSONResponse 408
              [''error'' \<mapsto> JStr ''agent_verification_failed'',
               ''message'' \<mapsto> JStr (aport_message e_f timeout_error),
               ''agent_id'' \<mapsto> aid_f],
          run_state = no_state,
          run_trace =
            \<lparr>tr_calls = [CallGetPassportView aid_f],
             tr_sent = [\<lparr>rq_method = ''GET'', rq_endpoint = PassportVerifyView aid_f,
                         rq_headers = get_headers e_f None, rq_json = None\<rparr>],
             tr_reads = (if reads_body opts_f req_f then 1 else 0)\<rparr>\<rparr>"
    by (simp add: timeout_error_def)
next
  assume a: "\<not> should_skip_request req_g (opt_skip_paths opts_g) \<and>
       resolve e_g opts_g req_g = Inr (bj_g, bp_g, bpol_g, aid_g) \<and>
       truthy aid_g \<and> \<not> truthy bp_g \<and>
       \<not> truthy_str (opt_policy_id opts_g) \<and> \<not> truthy bpol_g \<and>
       session_request e_g
         \<lparr>rq_method = ''GET'', rq_endpoint = PassportVerifyView aid_g,
          rq_headers = get_headers e_g None, rq_json = None\<rparr> = RaisesClientError msg_g"
  then have "fst (make_request e_g ''GET'' (PassportVerifyView aid_g) None None)
      = Inl (AportError (network_error msg_g))"
    by (simp add: make_request_def Let_def)
  with a have d: "dispatch e_g opts_g req_g =
     \<lparr>run_outcome =
        JSONResponse (err_status (network_error msg_g))
          [''error'' \<mapsto> JStr ''agent_verification_failed'',
           ''message'' \<mapsto> JStr (aport_message e_g (network_error msg_g)),
           ''agent_id'' \<mapsto> aid_g],
      run_state = no_state,
      run_trace =
        \<lparr>tr_calls = [CallGetPassportView aid_g],
         tr_sent = [\<lparr>rq_method = ''GET'', rq_endpoint = PassportVerifyView aid_g,
                     rq_headers = get_headers e_g None, rq_json = None\<rparr>],
         tr_reads = (if reads_body opts_g req_g then 1 else 0)\<rparr>\<rparr>"
    by (intro no_policy_failed [where bj = bj_g and bp = bp_g and bpol = bpol_g]) simp_all
  show "response_field (run_outcome (dispatch e_g opts_g req_g)) ''error'' =
         Some (JStr ''agent_verification_failed'')"
    and "response_field (run_outcome (dispatch e_g opts_g req_g)) ''agent_id'' = Some aid_g"
    and "response_field (run_outcome (dispatch e_g opts_g req_g)) ''reasons'' = None"
    and "run_state (dispatch e_g opts_g req_g) = no_state"
    and "run_trace (dispatch e_g opts_g req_g) =
         \<lparr>tr_calls = [CallGetPassportView aid_g],
          tr_sent = [\<lparr>rq_method = ''GET'', rq_endpoint = PassportVerifyView aid_g,
                      rq_headers = get_headers e_g None, rq_json = None\<rparr>],
          tr_reads = (if reads_body opts_g req_g then 1 else 0)\<rparr>"
    by (simp_all add: d response_field_def)
qed

lemma sample_all_sent:
  "list_all (\<lambda>rq. session_request (sample_env (\<lambda>rq. x)) rq = x) xs"
  by (induction xs) (simp_all add: sample_env_def)

text \<open>
  C6 as stated fails on the path without a policy: the request for the passport view
  times out, and the answer is 408 \<open>agent_verification_failed\<close>, which is no \<open>api_error\<close>
  and carries no reasons, so no reason code \<open>TIMEOUT\<close>.
\<close>

theorem C6_no_policy_timeout_counterexample:
  "session_request (sample_env (\<lambda>rq. RaisesTimeoutError))
     \<lparr>rq_method = ''GET'', rq_endpoint = PassportVerifyView (JStr ''abc''),
      rq_headers = Map.empty, rq_json = None\<rparr> = RaisesTimeoutError
   \<and> dispatch (sample_env (\<lambda>rq. RaisesTimeoutError)) (sample_options None)
       (sample_request ''GET'' ''/orders'' [''x-agent-id'' \<mapsto> ''abc''] []) =
     \<lparr>run_outcome =
        JSONResponse 408
          [''error'' \<mapsto> JStr ''agent_verification_failed'',
           ''message'' \<mapsto> JStr ''API request failed'',
           ''agent_id'' \<mapsto> JStr ''abc''],
      run_state = no_state,
      run_trace =
        \<lparr>tr_calls = [CallGetPassportView (JStr ''abc'')],
         tr_sent = [\<lparr>rq_method = ''GET'', rq_endpoint = PassportVerifyView (JStr ''abc''),
                     rq_headers = Map.empty, rq_json = None\<rparr>],
         tr_reads = 0\<rparr>\<rparr>
   \<and> response_field (run_outcome (dispatch (sample_env (\<lambda>rq. RaisesTimeoutError))
        (sample_options None)
        (sample_request ''GET'' ''/orders'' [''x-agent-id'' \<mapsto> ''abc''] []))) ''error''
       \<noteq> Some (JStr ''api_error'')
   \<and> response_field (run_outcome (dispatch (sample_env (\<lambda>rq. RaisesTimeoutError))
        (sample_options None)
        (sample_request ''GET'' ''/orders'' [''x-agent-id'' \<mapsto> ''abc''] []))) ''reasons''
       = None"
proof -
  let ?e = "sample_env (\<lambda>rq. RaisesTimeoutError)"
  let ?o = "sample_options None"
  let ?r = "sample_request ''GET'' ''/orders'' [''x-agent-id'' \<mapsto> ''abc''] []"
  have s: "session_request ?e
     \<lparr>rq_method = ''GET'', rq_endpoint = PassportVerifyView (JStr ''abc''),
      rq_headers = Map.empty, rq_json = None\<rparr> = RaisesTimeoutError"
    by (simp add: sample_env_def)
  have f: "fst (make_request ?e ''GET'' (PassportVerifyView (JStr ''abc'')) None None)
      = Inl (AportError timeout_error)"
    by (simp add: make_request_def Let_def sample_env_def)
  have o: "\<not> truthy_str (opt_policy_id ?o)"
    by (simp add: sample_options_def truthy_str_def)
  have h: "get_headers ?e None = Map.empty"
    by (simp add: get_headers_def sample_env_def)
  have nr: "\<not> reads_body ?o ?r"
    by (simp add: reads_body_def sample_request_def)
  have m: "aport_message ?e timeout_error = ''API request failed''"
    by (simp add: sample_env_def)
  from no_policy_failed [OF sample_not_skipped sample_resolve_header _ _ o _ f]
  have d: "dispatch ?e ?o ?r =
     \<lparr>run_outcome =
        JSONResponse 408
          [''error'' \<mapsto> JStr ''agent_verification_failed'',
           ''message'' \<mapsto> JStr ''API request failed'',
           ''agent_id'' \<mapsto> JStr ''abc''],
      run_state = no_state,
      run_trace =
        \<lparr>tr_calls = [CallGetPassportView (JStr ''abc'')],
         tr_sent = [\<lparr>rq_method = ''GET'', rq_endpoint = PassportVerifyView (JStr ''abc''),
                     rq_headers = Map.empty, rq_json = None\<rparr>],
         tr_reads = 0\<rparr>\<rparr>"
    by (simp add: h nr m) (simp add: timeout_error_def)
  show ?thesis
    unfolding d using s by (simp add: response_field_def)
qed

theorem C6_transport_failures_witness:
  "(\<exists>err. fst (make_request (sample_env (\<lambda>rq. RaisesClientError ''refused'')) ''GET'' JwksJson
              None None) = Inl (AportError err) \<and>
         err_reasons err = JArr [reason ''NETWORK_ERROR'' ''refused''] \<and> err_decision_id err = JNull)
   \<and> (\<exists>err. fst (make_request (sample_env (\<lambda>rq. RaisesTimeoutError)) ''GET'' JwksJson
              None None) = Inl (AportError err) \<and> err_status err = 408 \<and>
         err_reasons err = JArr [reason ''TIMEOUT'' ''Request timeout''] \<and>
         err_decision_id err = JNull)
   \<and> run_outcome (dispatch (sample_env (\<lambda>rq. RaisesTimeoutError)) (sample_options (Some ''p1''))
        (sample_request ''GET'' ''/orders'' [''x-agent-id'' \<mapsto> ''abc''] [])) =
       JSONResponse 408
         [''error'' \<mapsto> JStr ''api_error'',
          ''message'' \<mapsto> JStr ''API request failed'',
          ''reasons'' \<mapsto> JArr [reason ''TIMEOUT'' ''Request timeout'']]
   \<and> length (tr_sent (run_trace (dispatch (sample_env (\<lambda>rq. RaisesTimeoutError))
        (sample_options (Some ''p1''))
        (sample_request ''GET'' ''/orders'' [''x-agent-id'' \<mapsto> ''abc''] [])))) = 1
   \<and> response_field (run_outcome (dispatch (sample_env (\<lambda>rq. RaisesClientError ''refused''))
        (sample_options (Some ''p1''))
        (sample_request ''POST'' ''/orders'' Map.empty passport_policy_text))) ''reasons'' =
       Some (JArr [reason ''NETWORK_ERROR'' ''refused''])
   \<and> run_outcome (dispatch (sample_env (\<lambda>rq. RaisesTimeoutError)) (sample_options None)
        (sample_request ''GET'' ''/orders'' [''x-agent-id'' \<mapsto> ''abc''] [])) =
       JSONResponse 408
         [''error'' \<mapsto> JStr ''agent_verification_failed'',
          ''message'' \<mapsto> JStr ''API request failed'',
          ''agent_id'' \<mapsto> JStr ''abc'']
   \<and> response_field (run_outcome (dispatch (sample_env (\<lambda>rq. RaisesClientError ''refused''))
        (sample_options None)
        (sample_request ''GET'' ''/orders'' [''x-agent-id'' \<mapsto> ''abc''] []))) ''error'' =
       Some (JStr ''agent_verification_failed'')
   \<and> tr_sent (run_trace (dispatch (sample_env (\<lambda>rq. RaisesClientError ''refused''))
        (sample_options None)
        (sample_request ''GET'' ''/orders'' [''x-agent-id'' \<mapsto> ''abc''] []))) =
       [\<lparr>rq_method = ''GET'', rq_endpoint = PassportVerifyView (JStr ''abc''),
         rq_headers = Map.empty, rq_json = None\<rparr>]"
proof -
  let ?refused = "sample_env (\<lambda>rq. RaisesClientError ''refused'')"
  let ?timeout = "sample_env (\<lambda>rq. RaisesTimeoutError)"
  let ?o = "sample_options (Some ''p1'')"
  let ?n = "sample_options None"
  let ?get = "sample_request ''GET'' ''/orders'' [''x-agent-id'' \<mapsto> ''abc''] []"
  let ?post = "sample_request ''POST'' ''/orders'' Map.empty passport_policy_text"
  let ?bp = "JObj [''agent_id'' \<mapsto> JStr ''x'']"
  let ?bpol = "JObj [''id'' \<mapsto> JStr ''custom'', ''requires_capabilities'' \<mapsto> JArr []]"
  have h1: "session_request ?refused \<lparr>rq_method = ''GET'', rq_endpoint = JwksJson,
      rq_headers = get_headers ?refused None, rq_json = None\<rparr> = RaisesClientError ''refused''"
    by (simp add: sample_env_def)
  have h2: "session_request ?timeout \<lparr>rq_method = ''GET'', rq_endpoint = JwksJson,
      rq_headers = get_headers ?timeout None, rq_json = None\<rparr> = RaisesTimeoutError"
    by (simp add: sample_env_def)
  have h3: "\<not> should_skip_request ?get (opt_skip_paths ?o) \<and>
       resolve ?timeout ?o ?get = Inr (JObj Map.empty, JNull, JNull, JStr ''abc'') \<and>
       (truthy (JStr ''abc'') \<or> truthy JNull) \<and>
       (truthy_str (opt_policy_id ?o) \<or> truthy JNull) \<and>
       list_all (\<lambda>rq. session_request ?timeout rq = RaisesTimeoutError)
         (tr_sent (run_trace (dispatch ?timeout ?o ?get)))"
    using sample_not_skipped sample_resolve_header sample_all_sent
    by (simp add: sample_options_def truthy_str_def)
  have h4: "\<not> should_skip_request ?post (opt_skip_paths ?o) \<and>
       resolve ?refused ?o ?post =
         Inr (JObj [''passport'' \<mapsto> ?bp, ''policy'' \<mapsto> ?bpol], ?bp, ?bpol, JStr ''x'') \<and>
       (truthy (JStr ''x'') \<or> truthy ?bp) \<and>
       (truthy_str (opt_policy_id ?o) \<or> truthy ?bpol) \<and>
       list_all (\<lambda>rq. session_request ?refused rq = RaisesClientError ''refused'')
         (tr_sent (run_trace (dispatch ?refused ?o ?post)))"
    using sample_not_skipped sample_resolve_passport_policy [unfolded passport_policy_doc_def]
      sample_all_sent
    by (simp add: sample_options_def truthy_str_def)
  have h5: "\<not> should_skip_request ?get (opt_skip_paths ?n) \<and>
       resolve ?timeout ?n ?get = Inr (JObj Map.empty, JNull, JNull, JStr ''abc'') \<and>
       truthy (JStr ''abc'') \<and> \<not> truthy JNull \<and>
       \<not> truthy_str (opt_policy_id ?n) \<and> \<not> truthy JNull \<and>
       session_request ?timeout
         \<lparr>rq_method = ''GET'', rq_endpoint = PassportVerifyView (JStr ''abc''),
          rq_headers = get_headers ?timeout None, rq_json = None\<rparr> = RaisesTimeoutError"
    using sample_not_skipped sample_resolve_header
    by (simp add: sample_options_def truthy_str_def) (simp add: sample_env_def)
  have h6: "\<not> should_skip_request ?get (opt_skip_paths ?n) \<and>
       resolve ?refused ?n ?get = Inr (JObj Map.empty, JNull, JNull, JStr ''abc'') \<and>
       truthy (JStr ''abc'') \<and> \<not> truthy JNull \<and>
       \<not> truthy_str (opt_policy_id ?n) \<and> \<not> truthy JNull \<and>
       session_request ?refused
         \<lparr>rq_method = ''GET'', rq_endpoint = PassportVerifyView (JStr ''abc''),
          rq_headers = get_headers ?refused None, rq_json = None\<rparr> = RaisesClientError ''refused''"
    using sample_not_skipped sample_resolve_header
    by (simp add: sample_options_def truthy_str_def) (simp add: sample_env_def)
  have msg: "aport_message ?timeout timeout_error = ''API request failed''"
    by (simp add: sample_env_def)
  have hd: "get_headers ?refused None = Map.empty"
    by (simp add: get_headers_def sample_env_def)
  note inst = C6_transport_failures
    [where e = ?refused and m = "''GET''" and p = JwksJson and i = None and dt = None
       and msg = "''refused''"
       and e_b = ?timeout and m_b = "''GET''" and p_b = JwksJson and i_b = None and dt_b = None
       and req_c = ?get and opts_c = ?o and e_c = ?timeout and d_c = Map.empty
       and bp_c = JNull and bpol_c = JNull and aid_c = "JStr ''abc''"
       and req_d = ?post and opts_d = ?o and e_d = ?refused
       and d_d = "[''passport'' \<mapsto> ?bp, ''policy'' \<mapsto> ?bpol]" and bp_d = ?bp
       and bpol_d = ?bpol and aid_d = "JStr ''x''" and msg_d = "''refused''"
       and req_f = ?get and opts_f = ?n and e_f = ?timeout and bj_f = "JObj Map.empty"
       and bp_f = JNull and bpol_f = JNull and aid_f = "JStr ''abc''"
       and req_g = ?get and opts_g = ?n and e_g = ?refused and bj_g = "JObj Map.empty"
       and bp_g = JNull and bpol_g = JNull and aid_g = "JStr ''abc''" and msg_g = "''refused''"]
  have c1: "\<exists>err. fst (make_request ?refused ''GET'' JwksJson None None) = Inl (AportError err) \<and>
         err_reasons err = JArr [reason ''NETWORK_ERROR'' ''refused''] \<and> err_decision_id err = JNull"
    using inst h1 by blast
  have c2: "\<exists>err. fst (make_request ?timeout ''GET'' JwksJson None None) = Inl (AportError err) \<and>
         err_status err = 408 \<and>
         err_reasons err = JArr [reason ''TIMEOUT'' ''Request timeout''] \<and>
         err_decision_id err = JNull"
    using inst h2 by blast
  have c3: "run_outcome (dispatch ?timeout ?o ?get) =
       JSONResponse 408
         [''error'' \<mapsto> JStr ''api_error'',
          ''message'' \<mapsto> JStr (aport_message ?timeout timeout_error),
          ''reasons'' \<mapsto> JArr [reason ''TIMEOUT'' ''Request timeout'']]"
    and c4: "length (tr_sent (run_trace (dispatch ?timeout ?o ?get))) = 1"
    using inst h3 by blast+
  have c5: "response_field (run_outcome (dispatch ?refused ?o ?post)) ''reasons'' =
       Some (JArr [reason ''NETWORK_ERROR'' ''refused''])"
    using inst h4 by blast
  have c6: "dispatch ?timeout ?n ?get =
         \<lparr>run_outcome =
            JSONResponse 408
              [''error'' \<mapsto> JStr ''agent_verification_failed'',
               ''message'' \<mapsto> JStr (aport_message ?timeout timeout_error),
               ''agent_id'' \<mapsto> JStr ''abc''],
          run_state = no_state,
          run_trace =
            \<lparr>tr_calls = [CallGetPassportView (JStr ''abc'')],
             tr_sent = [\<lparr>rq_method = ''GET'', rq_endpoint = PassportVerifyView (JStr ''abc''),
                         rq_headers = get_headers ?timeout None, rq_json = None\<rparr>],
             tr_reads = (if reads_body ?n ?get then 1 else 0)\<rparr>\<rparr>"
    using inst h5 by blast
  have c7: "response_field (run_outcome (dispatch ?refused ?n ?get)) ''error'' =
         Some (JStr ''agent_verification_failed'')"
    and c8: "run_trace (dispatch ?refused ?n ?get) =
         \<lparr>tr_calls = [CallGetPassportView (JStr ''abc'')],
          tr_sent = [\<lparr>rq_method = ''GET'', rq_endpoint = PassportVerifyView (JStr ''abc''),
                      rq_headers = get_headers ?refused None, rq_json = None\<rparr>],
          tr_reads = (if reads_body ?n ?get then 1 else 0)\<rparr>"
    using inst h6 by blast+
  show ?thesis
    using c1 c2 c3 c4 c5 c7 by (simp add: c6 c8 msg hd)
qed

text \<open>
  C8: a connection error on the policy verification path. The client's failure carries
  status 0, and the pipeline answers with HTTP status 0.
\<close>

theorem C8_connection_error_status_zero:
  "response_status (run_outcome (dispatch (sample_env (\<lambda>rq. RaisesClientError ''refused''))
       (sample_options (Some ''p1''))
       (sample_request ''GET'' ''/orders'' [''x-agent-id'' \<mapsto> ''abc''] []))) = Some 0
   \<and> response_field (run_outcome (dispatch (sample_env (\<lambda>rq. RaisesClientError ''refused''))
       (sample_options (Some ''p1''))
       (sample_request ''GET'' ''/orders'' [''x-agent-id'' \<mapsto> ''abc''] []))) ''error''
       = Some (JStr ''api_error'')
   \<and> tr_sent (run_trace (dispatch (sample_env (\<lambda>rq. RaisesClientError ''refused''))
       (sample_options (Some ''p1''))
       (sample_request ''GET'' ''/orders'' [''x-agent-id'' \<mapsto> ''abc''] []))) =
      [\<lparr>rq_method = ''POST'', rq_endpoint = VerifyPolicyPath (JStr ''p1''),
        rq_headers = Map.empty,
        rq_json = Some (JObj [''context'' \<mapsto>
           JObj [''agent_id'' \<mapsto> JStr ''abc'', ''policy_id'' \<mapsto> JStr ''p1'']])\<rparr>]"
proof -
  let ?e = "sample_env (\<lambda>rq. RaisesClientError ''refused'')"
  let ?o = "sample_options (Some ''p1'')"
  have "fst (select_and_verify ?e JNull JNull (JStr ''abc'') (opt_str (opt_policy_id ?o))
              (Map.empty |` (- {''passport'', ''policy''}))) =
        Inl (AportError (network_error ''refused''))"
    by (rule select_and_verify_failed [OF _ make_request_all_refused sample_all_sent]) simp
  from policy_path_failed [OF this]
  have out: "run_outcome (dispatch ?e ?o (sample_request ''GET'' ''/orders'' [''x-agent-id'' \<mapsto> ''abc''] []))
      = JSONResponse 0
          [''error'' \<mapsto> JStr ''api_error'',
           ''message'' \<mapsto> JStr (aport_message ?e (network_error ''refused'')),
           ''reasons'' \<mapsto> err_reasons (network_error ''refused'')]"
    unfolding sample_policy_path_header by (simp add: network_error_def)
  have sent: "tr_sent (run_trace (dispatch ?e ?o (sample_request ''GET'' ''/orders'' [''x-agent-id'' \<mapsto> ''abc''] [])))
      = [\<lparr>rq_method = ''POST'', rq_endpoint = VerifyPolicyPath (JStr ''p1''),
        rq_headers = Map.empty,
        rq_json = Some (JObj [''context'' \<mapsto>
           JObj [''agent_id'' \<mapsto> JStr ''abc'', ''policy_id'' \<mapsto> JStr ''p1'']])\<rparr>]"
    unfolding sample_policy_path_header policy_path_trace
    by (simp add: select_and_verify_def Let_def verify_policy_def sent_make_request
        build_policy_request_body_def opt_str_def get_headers_def)
       (simp add: sample_options_def sample_env_def)
  show ?thesis
    unfolding out sent by (simp add: response_status_def response_field_def)
qed

lemma resolve_route_shape:
  assumes "resolve_route e given req = Inr (bj, bp, bpol, aid)"
  shows "(bp = JNull \<or> is_dict bp) \<and> (bpol = JNull \<or> is_dict bpol)"
  using assms
  by (auto simp: resolve_route_def split: sum.splits dest: body_field_shape)

lemma route_resolved:
  assumes "resolve_route e given req = Inr (JObj d, bp, bpol, aid)"
      and "truthy aid \<or> truthy bp"
  shows "run_trace (require_policy_with_context e pid context given req) =
     \<lparr>tr_calls = snd (snd (select_and_verify e bp bpol (effective_agent_id aid bp) (JStr pid)
                              ((d |` (- {''passport'', ''policy''})) ++ context))),
      tr_sent = fst (snd (select_and_verify e bp bpol (effective_agent_id aid bp) (JStr pid)
                              ((d |` (- {''passport'', ''policy''})) ++ context))),
      tr_reads = (if req_method req = ''POST'' then 1 else 0)\<rparr>"
  using assms
  by (auto simp: require_policy_with_context_def require_policy_with_context_try_def Let_def
      merged_context_def request_context_def split: sum.splits)

lemma select_and_verify_wire:
  assumes "bp = JNull \<or> is_dict bp"
  shows "\<exists>a p pass pol. map rq_json (fst (snd (select_and_verify e bp bpol eff pid ctx))) =
           [Some (JObj (build_policy_request_body a p None (Some ctx) pass pol))]"
proof (cases "truthy bpol")
  case True
  then show ?thesis
    by (simp add: select_and_verify_def Let_def verify_policy_with_policy_in_body_def
        sent_make_request) blast
next
  case False
  show ?thesis
  proof (cases "truthy bp")
    case True
    with assms obtain pd where "bp = JObj pd" by (cases bp) auto
    with True False show ?thesis
      by (simp add: select_and_verify_def Let_def verify_policy_with_passport_def
        sent_make_request) blast
  next
    case nbp: False
    with False show ?thesis
      by (simp add: select_and_verify_def Let_def verify_policy_def sent_make_request) blast
  qed
qed

text \<open>
  C9, as amended. In \<open>require_policy_with_context\<close>, once an identity or a passport is
  resolved from a body that is a JSON object, the context handed to the one client
  operation is the body mapping without its \<open>passport\<close> and \<open>policy\<close> entries, merged with
  the override context, whose value wins for a key both have; the request sent carries
  the context that \<open>_build_policy_request_body\<close> makes of it, that is, with \<open>agent_id\<close> and
  \<open>policy_id\<close> overwritten by the operation's own values (C10). In \<open>dispatch\<close> there is
  no override context: the context handed over is the body mapping without the two
  entries.
\<close>

theorem C9_verification_context:
  "(resolve_route e given req = Inr (JObj d, bp, bpol, aid) \<and> (truthy aid \<or> truthy bp) \<longrightarrow>
      map call_context (tr_calls (run_trace (require_policy_with_context e pid context given req)))
        = [(d |` (- {''passport'', ''policy''})) ++ context]
      \<and> (\<exists>a p pass pol.
            map rq_json (tr_sent (run_trace (require_policy_with_context e pid context given req)))
              = [Some (JObj (build_policy_request_body a p None
                   (Some ((d |` (- {''passport'', ''policy''})) ++ context)) pass pol))]))
   \<and> (\<forall>k. ((d1 |` (- {''passport'', ''policy''})) ++ context1) k =
         (case context1 k of
            Some v \<Rightarrow> Some v
          | None \<Rightarrow> if k = ''passport'' \<or> k = ''policy'' then None else d1 k))
   \<and> (\<not> should_skip_request req2 (opt_skip_paths opts2) \<and>
       resolve e2 opts2 req2 = Inr (JObj d2, bp2, bpol2, aid2) \<and>
       (truthy aid2 \<or> truthy bp2) \<and>
       (truthy_str (opt_policy_id opts2) \<or> truthy bpol2) \<longrightarrow>
       map call_context (tr_calls (run_trace (dispatch e2 opts2 req2)))
         = [d2 |` (- {''passport'', ''policy''})]
       \<and> (\<exists>a p pass pol.
            map rq_json (tr_sent (run_trace (dispatch e2 opts2 req2)))
              = [Some (JObj (build_policy_request_body a p None
                   (Some (d2 |` (- {''passport'', ''policy''}))) pass pol))]))"
proof (intro conjI impI allI)
  assume a: "resolve_route e given req = Inr (JObj d, bp, bpol, aid) \<and> (truthy aid \<or> truthy bp)"
  then have tr: "run_trace (require_policy_with_context e pid context given req) =
     \<lparr>tr_calls = snd (snd (select_and_verify e bp bpol (effective_agent_id aid bp) (JStr pid)
                              ((d |` (- {''passport'', ''policy''})) ++ context))),
      tr_sent = fst (snd (select_and_verify e bp bpol (effective_agent_id aid bp) (JStr pid)
                              ((d |` (- {''passport'', ''policy''})) ++ context))),
      tr_reads = (if req_method req = ''POST'' then 1 else 0)\<rparr>"
    by (intro route_resolved) simp_all
  from a have shape: "bp = JNull \<or> is_dict bp" using resolve_route_shape by blast
  show "map call_context (tr_calls (run_trace (require_policy_with_context e pid context given req)))
        = [(d |` (- {''passport'', ''policy''})) ++ context]"
    by (simp add: tr select_and_verify_calls call_context_def)
  show "\<exists>a p pass pol.
            map rq_json (tr_sent (run_trace (require_policy_with_context e pid context given req)))
              = [Some (JObj (build_policy_request_body a p None
                   (Some ((d |` (- {''passport'', ''policy''})) ++ context)) pass pol))]"
    unfolding tr using select_and_verify_wire [OF shape] by simp
next
  fix k
  show "((d1 |` (- {''passport'', ''policy''})) ++ context1) k =
         (case context1 k of
            Some v \<Rightarrow> Some v
          | None \<Rightarrow> if k = ''passport'' \<or> k = ''policy'' then None else d1 k)"
    by (simp add: map_add_def restrict_map_def split: option.splits)
next
  assume a: "\<not> should_skip_request req2 (opt_skip_paths opts2) \<and>
       resolve e2 opts2 req2 = Inr (JObj d2, bp2, bpol2, aid2) \<and>
       (truthy aid2 \<or> truthy bp2) \<and>
       (truthy_str (opt_policy_id opts2) \<or> truthy bpol2)"
  then have d: "dispatch e2 opts2 req2 =
     handle_exceptions e2 (policy_path e2 opts2 (JObj d2) bp2 bpol2 (effective_agent_id aid2 bp2)
       (if reads_body opts2 req2 then 1 else 0))"
    by (intro dispatch_resolved) simp_all
  from a have shape: "bp2 = JNull \<or> is_dict bp2" using resolve_shape by blast
  show "map call_context (tr_calls (run_trace (dispatch e2 opts2 req2)))
         = [d2 |` (- {''passport'', ''policy''})]"
    unfolding d policy_path_trace by (simp add: select_and_verify_calls call_context_def)
  show "\<exists>a p pass pol.
            map rq_json (tr_sent (run_trace (dispatch e2 opts2 req2)))
              = [Some (JObj (build_policy_request_body a p None
                   (Some (d2 |` (- {''passport'', ''policy''}))) pass pol))]"
    unfolding d policy_path_trace using select_and_verify_wire [OF shape] by simp
qed

lemma sample_resolve_route:
  "resolve_route (sample_env service) None
     (sample_request ''POST'' ''/orders'' [''x-agent-id'' \<mapsto> ''h''] amount_text) =
   Inr (amount_doc, JNull, JNull, JStr ''h'')"
  by (simp add: resolve_route_def read_and_replay_body_def)
     (simp add: sample_request_def sample_loads_texts amount_doc_def body_field_obj
        extract_agent_id_obj opt_str_def header_agent_id_def header_def py_or_def)

text \<open>
  C9 as stated fails for the key \<open>agent_id\<close>: the body and the override context both
  have it, and the context sent carries neither value but the identity of the header.
\<close>

theorem C9_reserved_key_counterexample:
  "[''agent_id'' \<mapsto> JStr ''o'', ''amount'' \<mapsto> JInt 9] ''agent_id'' = Some (JStr ''o'')
   \<and> loads_or_empty (sample_env (answers allow_text)) amount_text =
       Inr (JObj [''agent_id'' \<mapsto> JStr ''b'', ''amount'' \<mapsto> JInt 5])
   \<and> map wire_context (tr_sent (run_trace
       (require_policy_with_context (sample_env (answers allow_text)) ''p1''
          [''agent_id'' \<mapsto> JStr ''o'', ''amount'' \<mapsto> JInt 9] None
          (sample_request ''POST'' ''/orders'' [''x-agent-id'' \<mapsto> ''h''] amount_text)))) =
      [[''agent_id'' \<mapsto> JStr ''h'', ''amount'' \<mapsto> JInt 9, ''policy_id'' \<mapsto> JStr ''p1'']]"
proof -
  let ?e = "sample_env (answers allow_text)"
  let ?ctx = "[''agent_id'' \<mapsto> JStr ''o'', ''amount'' \<mapsto> JInt 9]"
  let ?r = "sample_request ''POST'' ''/orders'' [''x-agent-id'' \<mapsto> ''h''] amount_text"
  let ?d = "[''agent_id'' \<mapsto> JStr ''b'', ''amount'' \<mapsto> JInt 5]"
  have aid: "truthy (JStr ''h'') \<or> truthy JNull" by simp
  have sent: "tr_sent (run_trace (require_policy_with_context ?e ''p1'' ?ctx None ?r)) =
      fst (snd (select_and_verify ?e JNull JNull (effective_agent_id (JStr ''h'') JNull)
                  (JStr ''p1'') ((?d |` (- {''passport'', ''policy''})) ++ ?ctx)))"
    unfolding route_resolved [OF sample_resolve_route [unfolded amount_doc_def] aid] by simp
  have wire: "map wire_context (tr_sent (run_trace (require_policy_with_context ?e ''p1'' ?ctx None ?r)))
      = [((?d |` (- {''passport'', ''policy''})) ++ ?ctx)(''agent_id'' \<mapsto> JStr ''h'',
            ''policy_id'' \<mapsto> JStr ''p1'')]"
    unfolding sent
    by (simp add: select_and_verify_def Let_def verify_policy_def sent_make_request
        build_policy_request_body_def wire_context_def effective_agent_id_def py_or_def)
  have eq: "((?d |` (- {''passport'', ''policy''})) ++ ?ctx)(''agent_id'' \<mapsto> JStr ''h'',
            ''policy_id'' \<mapsto> JStr ''p1'') =
        [''agent_id'' \<mapsto> JStr ''h'', ''amount'' \<mapsto> JInt 9, ''policy_id'' \<mapsto> JStr ''p1'']"
    by (rule ext) (simp add: map_add_def restrict_map_def)
  show ?thesis
    unfolding wire eq by (simp add: sample_loads_texts amount_doc_def)
qed

theorem C9_verification_context_witness:
  "map call_context (tr_calls (run_trace
       (require_policy_with_context (sample_env (answers allow_text)) ''p1''
          [''amount'' \<mapsto> JInt 9] None
          (sample_request ''POST'' ''/orders'' [''x-agent-id'' \<mapsto> ''h''] amount_text)))) =
      [([''agent_id'' \<mapsto> JStr ''b'', ''amount'' \<mapsto> JInt 5] |` (- {''passport'', ''policy''}))
         ++ [''amount'' \<mapsto> JInt 9]]
   \<and> (([''agent_id'' \<mapsto> JStr ''b'', ''amount'' \<mapsto> JInt 5] |` (- {''passport'', ''policy''}))
         ++ [''amount'' \<mapsto> JInt 9]) ''amount'' = Some (JInt 9)
   \<and> map call_context (tr_calls (run_trace
       (dispatch (sample_env (answers allow_text)) (sample_options (Some ''p1''))
          (sample_request ''POST'' ''/orders'' Map.empty passport_policy_text)))) =
      [[''passport'' \<mapsto> JObj [''agent_id'' \<mapsto> JStr ''x''],
        ''policy'' \<mapsto> JObj [''id'' \<mapsto> JStr ''custom'', ''requires_capabilities'' \<mapsto> JArr []]]
         |` (- {''passport'', ''policy''})]"
proof -
  let ?e = "sample_env (answers allow_text)"
  let ?o = "sample_options (Some ''p1'')"
  let ?ctx = "[''amount'' \<mapsto> JInt 9]"
  let ?r = "sample_request ''POST'' ''/orders'' [''x-agent-id'' \<mapsto> ''h''] amount_text"
  let ?d = "[''agent_id'' \<mapsto> JStr ''b'', ''amount'' \<mapsto> JInt 5]"
  let ?post = "sample_request ''POST'' ''/orders'' Map.empty passport_policy_text"
  let ?bp = "JObj [''agent_id'' \<mapsto> JStr ''x'']"
  let ?bpol = "JObj [''id'' \<mapsto> JStr ''custom'', ''requires_capabilities'' \<mapsto> JArr []]"
  have h1: "resolve_route ?e None ?r = Inr (JObj ?d, JNull, JNull, JStr ''h'') \<and>
      (truthy (JStr ''h'') \<or> truthy JNull)"
    using sample_resolve_route [of "answers allow_text"] by (simp add: amount_doc_def)
  have h3: "\<not> should_skip_request ?post (opt_skip_paths ?o) \<and>
       resolve ?e ?o ?post =
         Inr (JObj [''passport'' \<mapsto> ?bp, ''policy'' \<mapsto> ?bpol], ?bp, ?bpol, JStr ''x'') \<and>
       (truthy (JStr ''x'') \<or> truthy ?bp) \<and>
       (truthy_str (opt_policy_id ?o) \<or> truthy ?bpol)"
    using sample_not_skipped sample_resolve_passport_policy [unfolded passport_policy_doc_def]
    by (simp add: sample_options_def truthy_str_def)
  from C9_verification_context [of ?e None ?r ?d JNull JNull "JStr ''h''" "''p1''" ?ctx
      ?d ?ctx ?post ?o ?e "[''passport'' \<mapsto> ?bp, ''policy'' \<mapsto> ?bpol]" ?bp ?bpol "JStr ''x''"]
    h1 h3
  show ?thesis by (simp add: map_add_def restrict_map_def)
qed

end
